theory Spec2Isabelle
  imports Complex_Main
begin

text \<open>
  The text style of the rendering engine (scene/text/TextStyle.ts): a class of private
  fields with a getter and a setter for each property, a key derived from the properties
  and cached until the next change, change notification through the event emitter that
  the class extends, the conversion of the option shapes of older versions, and
  \<open>reset\<close>, \<open>clone\<close> and \<open>destroy\<close>.

  A method is a function from the instance to the instance it leaves; an exception is a
  value of the result; the calls that reach the outside (\<open>emit\<close>, \<open>texture.destroy\<close>, the
  deprecation notices) are recorded in the order they are made.
\<close>

section \<open>Values of the text style\<close>

text \<open>
  A JavaScript \<open>number\<close> is kept as an exact rational, one of the two infinities, or
  \<open>NaN\<close>. The two zeros of the language, which are equal under \<open>===\<close> and are printed
  alike, are the one value \<open>Num 0\<close>. A product or a quotient of two finite numbers is
  exact here, where the language rounds it to the nearest double; the one place where
  this class makes a number out of a string, \<open>parseInt\<close>, is rounded below as the language
  rounds it. A \<open>char\<close> stands for one code unit below 256 of a JavaScript string.
\<close>

datatype number = Num rat | NaN | Infinity | NegInfinity

fun negative :: "number \<Rightarrow> bool" where
  "negative (Num a) = (a < 0)"
| "negative NegInfinity = True"
| "negative _ = False"

fun negate :: "number \<Rightarrow> number" where
  "negate (Num a) = Num (- a)"
| "negate Infinity = NegInfinity"
| "negate NegInfinity = Infinity"
| "negate NaN = NaN"

fun num_times :: "number \<Rightarrow> number \<Rightarrow> number" where
  "num_times (Num a) (Num b) = Num (a * b)"
| "num_times NaN _ = NaN"
| "num_times _ NaN = NaN"
| "num_times x y =
     (if x = Num 0 \<or> y = Num 0 then NaN
      else if negative x = negative y then Infinity else NegInfinity)"

text \<open>A zero divisor is read as the positive zero.\<close>

fun num_divide :: "number \<Rightarrow> number \<Rightarrow> number" where
  "num_divide (Num a) (Num b) =
     (if b \<noteq> 0 then Num (a / b)
      else if a = 0 then NaN else if 0 < a then Infinity else NegInfinity)"
| "num_divide NaN _ = NaN"
| "num_divide _ NaN = NaN"
| "num_divide (Num a) _ = Num 0"
| "num_divide x (Num b) = (if negative x = (b < 0) then Infinity else NegInfinity)"
| "num_divide _ _ = NaN"

text \<open>Truthiness of a number: every number but \<open>0\<close> and \<open>NaN\<close>.\<close>

fun truthy_number :: "number \<Rightarrow> bool" where
  "truthy_number (Num a) = (a \<noteq> 0)"
| "truthy_number NaN = False"
| "truthy_number _ = True"

text \<open>\<open>Math.PI\<close> is the double nearest to the circle constant; this is its exact value.\<close>

definition Math_PI :: number where
  "Math_PI = Num (884279719003555 / 281474976710656)"

text \<open>The enumerated string types of the source, one constructor for each string.\<close>

datatype TextStyleAlign = AlignLeft | AlignCenter | AlignRight | AlignJustify
datatype TextStyleFontStyle = StyleNormal | StyleItalic | StyleOblique
datatype TextStyleFontVariant = VariantNormal | VariantSmallCaps
datatype TextStyleFontWeight =
    WeightNormal | WeightBold | WeightBolder | WeightLighter
  | Weight100 | Weight200 | Weight300 | Weight400 | Weight500
  | Weight600 | Weight700 | Weight800 | Weight900
datatype TextStyleTextBaseline =
    BaselineAlphabetic | BaselineTop | BaselineHanging | BaselineMiddle
  | BaselineIdeographic | BaselineBottom
datatype TextStyleWhiteSpace = SpaceNormal | SpacePre | SpacePreLine

text \<open>\<open>fontFamily: string | string[]\<close> and \<open>fontSize: number | string\<close>.\<close>

datatype FontFamily = Family string | Families "string list"
datatype FontSizeInput = SizeNumber number | SizeString string

text \<open>
  A \<open>ColorSource\<close> is only stored and handed on by this class; the two forms that the
  documented defaults and the legacy inputs use are kept.
\<close>

datatype ColorSource = ColorNumber number | ColorString string

record TextDropShadow =
  alpha :: number
  angle :: number
  blur :: number
  color :: ColorSource
  distance :: number

text \<open>
  \<open>Partial<TextDropShadow>\<close>: each of the five fields may be missing. The value that the
  \<open>dropShadow\<close> setter receives is a boolean, such an object, or \<open>null\<close>.
\<close>

datatype PartialDropShadow =
  PartialDropShadow "number option" "number option" "number option" "ColorSource option"
    "number option"

datatype DropShadowInput = ShadowBool bool | ShadowObject PartialDropShadow | ShadowNull

subsection \<open>Paint values and object identity\<close>

text \<open>
  Objects are compared by reference in the source (\<open>===\<close>), so every object value carries
  its identity. \<open>Supplied n\<close> is an object that the calling code built; the other
  identities belong to the objects that the code of this class allocates for the instance
  \<open>i\<close>: the stroke and fill objects of the legacy conversion, and the result of the
  \<open>k\<close>-th paint conversion run by a setter of the instance.
\<close>

datatype ref = Supplied nat | LegacyStroke nat | LegacyFill nat | Converted nat nat

type_synonym Texture = nat

text \<open>
  Modelled from the spec: \<open>FillGradient\<close> (scene/graphics/shared/fill/FillGradient.ts is
  not under src/). The spec calls it a gradient paint built from color stops; the
  constructor takes the two end points and \<open>addColorStop\<close> appends one stop, an offset
  with a color number.
\<close>

record FillGradient =
  x0 :: number
  y0 :: number
  x1 :: number
  y1 :: number
  gradientStops :: "(number \<times> number) list"

definition new_FillGradient :: "number \<Rightarrow> number \<Rightarrow> number \<Rightarrow> number \<Rightarrow> FillGradient" where
  "new_FillGradient a b c d = \<lparr> x0 = a, y0 = b, x1 = c, y1 = d, gradientStops = [] \<rparr>"

definition addColorStop :: "number \<Rightarrow> number \<Rightarrow> FillGradient \<Rightarrow> FillGradient" where
  "addColorStop ratio colour g = g\<lparr> gradientStops := gradientStops g @ [(ratio, colour)] \<rparr>"

text \<open>
  \<open>FillStyleInputs\<close>, the raw value given for a fill or a stroke, and by the same union the
  converted paint descriptor: \<open>undefined\<close>, \<open>null\<close>, a number, a string, an array of
  colors, or an object. Of an object the fields that this class reads or writes are kept:
  \<open>color\<close>, \<open>width\<close>, \<open>fill\<close> (a gradient) and \<open>texture\<close>.
\<close>

datatype FillStyleInputs =
    Undefined
  | Null
  | NumberV number
  | StringV string
  | ArrayV ref "ColorSource list"
  | ObjectV ref FillStyleInputs "number option" "FillGradient option" "Texture option"

text \<open>
  Strict equality \<open>===\<close> on these values: primitives by their value, where \<open>NaN\<close> equals
  nothing, itself included; arrays and objects by reference.
\<close>

fun strict_eq :: "FillStyleInputs \<Rightarrow> FillStyleInputs \<Rightarrow> bool" where
  "strict_eq Undefined Undefined = True"
| "strict_eq Null Null = True"
| "strict_eq (NumberV a) (NumberV b) = (a = b \<and> a \<noteq> NaN)"
| "strict_eq (StringV a) (StringV b) = (a = b)"
| "strict_eq (ArrayV r _) (ArrayV r' _) = (r = r')"
| "strict_eq (ObjectV r _ _ _ _) (ObjectV r' _ _ _ _) = (r = r')"
| "strict_eq _ _ = False"

text \<open>The optional read \<open>v?.texture\<close>, kept when the texture is there (truthy).\<close>

fun texture_of :: "FillStyleInputs \<Rightarrow> Texture option" where
  "texture_of (ObjectV _ _ _ _ t) = t"
| "texture_of _ = None"

datatype error = TypeError | UnsupportedPaintInput

section \<open>parseInt\<close>

text \<open>
  The Number value of a natural number: the number itself when it is written with at
  most 53 bits, and otherwise the nearest number with a significand of 53 bits, a tie
  going to the even significand; when that number reaches \<open>2 ^ 1024\<close> the value is
  \<open>Infinity\<close>.
\<close>

fun bitLength :: "nat \<Rightarrow> nat" where
  "bitLength n = (if n = 0 then 0 else Suc (bitLength (n div 2)))"

declare bitLength.simps [simp del]

definition toDouble :: "nat \<Rightarrow> number" where
  "toDouble n =
     (if bitLength n \<le> 53 then Num (of_nat n)
      else
        let e = bitLength n - 53;
            q = n div 2 ^ e;
            r = n mod 2 ^ e;
            half = 2 ^ (e - 1);
            q' = (if half < r \<or> (r = half \<and> odd q) then Suc q else q)
        in if 2 ^ 1024 \<le> q' * 2 ^ e then Infinity else Num (of_nat (q' * 2 ^ e)))"

text \<open>
  \<open>parseInt(string, 10)\<close> of the language: leading white space is skipped, one sign is
  read, and the longest run of decimal digits that follows is the integer read; with no
  digit there the result is \<open>NaN\<close>. The result is the Number value of the integer with
  its sign. (For a run of more than twenty significant digits the language standard also
  admits a less exact rounding; this is the exact one.)
\<close>

definition isWhiteSpace :: "char \<Rightarrow> bool" where
  "isWhiteSpace c = ((of_char c :: nat) \<in> {9, 10, 11, 12, 13, 32, 160})"

definition isDigit :: "char \<Rightarrow> bool" where
  "isDigit c = (48 \<le> (of_char c :: nat) \<and> (of_char c :: nat) \<le> 57)"

definition digitValue :: "char \<Rightarrow> nat" where
  "digitValue c = (of_char c :: nat) - 48"

definition digitsValue :: "string \<Rightarrow> nat" where
  "digitsValue ds = foldl (\<lambda>a c. 10 * a + digitValue c) 0 ds"

definition parseInt :: "string \<Rightarrow> number" where
  "parseInt str =
     (let S = dropWhile isWhiteSpace str;
          minus = (S \<noteq> [] \<and> hd S = CHR ''-'');
          S' = (if S \<noteq> [] \<and> (hd S = CHR ''+'' \<or> hd S = CHR ''-'') then tl S else S);
          Z = takeWhile isDigit S'
      in if Z = [] then NaN
         else if minus then negate (toDouble (digitsValue Z)) else toDouble (digitsValue Z))"

text \<open>
  The reading of the spec's sentence on font sizes: the number left when every character
  that is not a digit is removed from the string.
\<close>

definition stripNonDigits :: "string \<Rightarrow> number" where
  "stripNonDigits str = toDouble (digitsValue (filter isDigit str))"

section \<open>The options and the fields of a text style\<close>

text \<open>
  \<open>TextStyleOptions\<close>, with the keys of older versions that \<open>convertV7Tov8Style\<close> still
  reads. \<open>None\<close> is a key that the object does not have; a key that is there and holds
  \<open>undefined\<close> is modelled for the two paints only (\<open>Some Undefined\<close>). The declared type
  of \<open>trim\<close> admits only \<open>false\<close>.
\<close>

record TextStyleOptions =
  align :: "TextStyleAlign option"
  breakWords :: "bool option"
  dropShadow :: "DropShadowInput option"
  fill :: "FillStyleInputs option"
  fontFamily :: "FontFamily option"
  fontSize :: "FontSizeInput option"
  fontStyle :: "TextStyleFontStyle option"
  fontVariant :: "TextStyleFontVariant option"
  fontWeight :: "TextStyleFontWeight option"
  leading :: "number option"
  letterSpacing :: "number option"
  lineHeight :: "number option"
  padding :: "number option"
  stroke :: "FillStyleInputs option"
  textBaseline :: "TextStyleTextBaseline option"
  trim :: "bool option"
  whiteSpace :: "TextStyleWhiteSpace option"
  wordWrap :: "bool option"
  wordWrapWidth :: "number option"
  dropShadowAlpha :: "number option"
  dropShadowAngle :: "number option"
  dropShadowBlur :: "number option"
  dropShadowColor :: "ColorSource option"
  dropShadowDistance :: "number option"
  strokeThickness :: "number option"
  fillGradientStops :: "number list option"

text \<open>
  The private fields of the class; \<open>f_fill\<close> stands for \<open>_fill\<close>, and so on. The cached
  key \<open>_styleKey\<close> is added below, so that these are the fields a key can be made of.
\<close>

record TextStyleProps =
  f_fill :: FillStyleInputs
  f_originalFill :: FillStyleInputs
  f_stroke :: FillStyleInputs
  f_originalStroke :: FillStyleInputs
  f_dropShadow :: "TextDropShadow option"
  f_fontFamily :: FontFamily
  f_fontSize :: number
  f_fontStyle :: TextStyleFontStyle
  f_fontVariant :: TextStyleFontVariant
  f_fontWeight :: TextStyleFontWeight
  f_breakWords :: bool
  f_align :: TextStyleAlign
  f_leading :: number
  f_letterSpacing :: number
  f_lineHeight :: number
  f_textBaseline :: TextStyleTextBaseline
  f_whiteSpace :: TextStyleWhiteSpace
  f_wordWrap :: bool
  f_wordWrapWidth :: number
  f_padding :: number
  f_trim :: bool

text \<open>
  The collaborators that are not under src/ are parameters of the model:
  \<open>convertFillInputToFillStyle\<close> (given the identity of the object it allocates, the raw
  value and the default paint; it returns the descriptor or fails),
  \<open>GraphicsContext.defaultFillStyle\<close> and \<open>defaultStrokeStyle\<close>,
  \<open>generateTextStyleKey\<close>, \<open>Color.shared.setValue(c).toNumber()\<close>, and the conversion
  of a string to a number that the language applies in a product.
\<close>

record Env =
  convertFillInputToFillStyle ::
    "ref \<Rightarrow> FillStyleInputs \<Rightarrow> FillStyleInputs \<Rightarrow> error + FillStyleInputs"
  defaultFillStyle :: FillStyleInputs
  defaultStrokeStyle :: FillStyleInputs
  generateTextStyleKey :: "TextStyleProps \<Rightarrow> string"
  Color_toNumber :: "ColorSource \<Rightarrow> number"
  StringToNumber :: "string \<Rightarrow> number"

text \<open>
  One call of \<open>emit\<close>: the event name, the instance passed as payload, and the listeners
  that were registered and so were called.
\<close>

datatype Emission = Emission string nat "nat list"

text \<open>
  An instance: the fields, the cached key, and the state of the \<open>EventEmitter\<close> it
  extends. \<open>self\<close> is the identity of the instance, \<open>conversions\<close> counts the paint
  conversions its setters have run (the identity of the next converted object), and
  \<open>emitted\<close> is the trace of the \<open>emit\<close> calls made so far.
\<close>

record TextStyle = TextStyleProps +
  f_styleKey :: "string option"
  self :: nat
  conversions :: nat
  listeners :: "nat list"
  emitted :: "Emission list"

type_synonym outcome = "(error \<times> TextStyle) + TextStyle"

definition defaultDropShadow :: TextDropShadow where
  "defaultDropShadow =
     \<lparr> alpha = Num 1, angle = num_divide Math_PI (Num 6), blur = Num 0,
       color = ColorString ''black'', distance = Num 5 \<rparr>"

definition defaultTextStyle :: TextStyleOptions where
  "defaultTextStyle =
     \<lparr> align = Some AlignLeft, breakWords = Some False, dropShadow = Some ShadowNull,
       fill = Some (StringV ''black''), fontFamily = Some (Family ''Arial''),
       fontSize = Some (SizeNumber (Num 26)), fontStyle = Some StyleNormal,
       fontVariant = Some VariantNormal, fontWeight = Some WeightNormal,
       leading = Some (Num 0), letterSpacing = Some (Num 0), lineHeight = Some (Num 0),
       padding = Some (Num 0), stroke = Some Null, textBaseline = Some BaselineAlphabetic,
       trim = Some False, whiteSpace = Some SpacePre, wordWrap = Some False,
       wordWrapWidth = Some (Num 100),
       dropShadowAlpha = None, dropShadowAngle = None, dropShadowBlur = None,
       dropShadowColor = None, dropShadowDistance = None, strokeThickness = None,
       fillGradientStops = None \<rparr>"

section \<open>Change notification and the setters\<close>

text \<open>
  \<open>on('update', l)\<close> and \<open>removeAllListeners()\<close> of the emitter, and \<open>update()\<close>, which
  clears the cached key and calls \<open>emit('update', this)\<close>. A listener is known by its
  number only; what a listener does when it is called is outside the model.
\<close>

definition on_update :: "nat \<Rightarrow> TextStyle \<Rightarrow> TextStyle" where
  "on_update l s = s\<lparr> listeners := listeners s @ [l] \<rparr>"

definition removeAllListeners :: "TextStyle \<Rightarrow> TextStyle" where
  "removeAllListeners s = s\<lparr> listeners := [] \<rparr>"

definition update :: "TextStyle \<Rightarrow> TextStyle" where
  "update s =
     s\<lparr> f_styleKey := None,
        emitted := emitted s @ [Emission ''update'' (self s) (listeners s)] \<rparr>"

definition set_align :: "TextStyleAlign \<Rightarrow> TextStyle \<Rightarrow> TextStyle" where
  "set_align v s = update (s\<lparr> f_align := v \<rparr>)"

definition set_breakWords :: "bool \<Rightarrow> TextStyle \<Rightarrow> TextStyle" where
  "set_breakWords v s = update (s\<lparr> f_breakWords := v \<rparr>)"

text \<open>The spread \<open>{...TextStyle.defaultDropShadow, ...value}\<close>.\<close>

fun spread_dropShadow :: "TextDropShadow \<Rightarrow> PartialDropShadow \<Rightarrow> TextDropShadow" where
  "spread_dropShadow d (PartialDropShadow a g b c l) =
     \<lparr> alpha = (case a of Some v \<Rightarrow> v | None \<Rightarrow> alpha d),
       angle = (case g of Some v \<Rightarrow> v | None \<Rightarrow> angle d),
       blur = (case b of Some v \<Rightarrow> v | None \<Rightarrow> blur d),
       color = (case c of Some v \<Rightarrow> v | None \<Rightarrow> color d),
       distance = (case l of Some v \<Rightarrow> v | None \<Rightarrow> distance d) \<rparr>"

definition set_dropShadow :: "DropShadowInput \<Rightarrow> TextStyle \<Rightarrow> TextStyle" where
  "set_dropShadow v s =
     update (s\<lparr> f_dropShadow :=
       (case v of
          ShadowObject p \<Rightarrow> Some (spread_dropShadow defaultDropShadow p)
        | ShadowBool b \<Rightarrow> (if b then Some defaultDropShadow else None)
        | ShadowNull \<Rightarrow> None) \<rparr>)"

definition set_fontFamily :: "FontFamily \<Rightarrow> TextStyle \<Rightarrow> TextStyle" where
  "set_fontFamily v s = update (s\<lparr> f_fontFamily := v \<rparr>)"

definition set_fontSize :: "FontSizeInput \<Rightarrow> TextStyle \<Rightarrow> TextStyle" where
  "set_fontSize v s =
     update (s\<lparr> f_fontSize := (case v of SizeString str \<Rightarrow> parseInt str | SizeNumber n \<Rightarrow> n) \<rparr>)"

definition set_fontStyle :: "TextStyleFontStyle \<Rightarrow> TextStyle \<Rightarrow> TextStyle" where
  "set_fontStyle v s = update (s\<lparr> f_fontStyle := v \<rparr>)"

definition set_fontVariant :: "TextStyleFontVariant \<Rightarrow> TextStyle \<Rightarrow> TextStyle" where
  "set_fontVariant v s = update (s\<lparr> f_fontVariant := v \<rparr>)"

definition set_fontWeight :: "TextStyleFontWeight \<Rightarrow> TextStyle \<Rightarrow> TextStyle" where
  "set_fontWeight v s = update (s\<lparr> f_fontWeight := v \<rparr>)"

definition set_leading :: "number \<Rightarrow> TextStyle \<Rightarrow> TextStyle" where
  "set_leading v s = update (s\<lparr> f_leading := v \<rparr>)"

definition set_letterSpacing :: "number \<Rightarrow> TextStyle \<Rightarrow> TextStyle" where
  "set_letterSpacing v s = update (s\<lparr> f_letterSpacing := v \<rparr>)"

definition set_lineHeight :: "number \<Rightarrow> TextStyle \<Rightarrow> TextStyle" where
  "set_lineHeight v s = update (s\<lparr> f_lineHeight := v \<rparr>)"

definition set_padding :: "number \<Rightarrow> TextStyle \<Rightarrow> TextStyle" where
  "set_padding v s = update (s\<lparr> f_padding := v \<rparr>)"

definition set_trim :: "bool \<Rightarrow> TextStyle \<Rightarrow> TextStyle" where
  "set_trim v s = update (s\<lparr> f_trim := v \<rparr>)"

definition set_textBaseline :: "TextStyleTextBaseline \<Rightarrow> TextStyle \<Rightarrow> TextStyle" where
  "set_textBaseline v s = update (s\<lparr> f_textBaseline := v \<rparr>)"

definition set_whiteSpace :: "TextStyleWhiteSpace \<Rightarrow> TextStyle \<Rightarrow> TextStyle" where
  "set_whiteSpace v s = update (s\<lparr> f_whiteSpace := v \<rparr>)"

definition set_wordWrap :: "bool \<Rightarrow> TextStyle \<Rightarrow> TextStyle" where
  "set_wordWrap v s = update (s\<lparr> f_wordWrap := v \<rparr>)"

definition set_wordWrapWidth :: "number \<Rightarrow> TextStyle \<Rightarrow> TextStyle" where
  "set_wordWrapWidth v s = update (s\<lparr> f_wordWrapWidth := v \<rparr>)"

text \<open>
  The \<open>fill\<close> and \<open>stroke\<close> setters. The guard returns at once when the value is the raw
  value already retained. Otherwise the raw value is stored first, and when the converter
  throws, the exception leaves the setter with that raw value stored and nothing else
  done: \<open>Inl\<close> carries the error and the instance as the exception leaves it.
\<close>

definition get_fill :: "TextStyle \<Rightarrow> FillStyleInputs" where
  "get_fill s = f_originalFill s"

definition set_fill :: "Env \<Rightarrow> FillStyleInputs \<Rightarrow> TextStyle \<Rightarrow> outcome" where
  "set_fill E v s =
     (if strict_eq v (f_originalFill s) then Inr s
      else
        let s1 = s\<lparr> f_originalFill := v, conversions := Suc (conversions s) \<rparr> in
        case convertFillInputToFillStyle E (Converted (self s) (conversions s))
               (if strict_eq v (NumberV (Num 0)) then StringV ''black'' else v)
               (defaultFillStyle E) of
          Inl e \<Rightarrow> Inl (e, s1)
        | Inr d \<Rightarrow> Inr (update (s1\<lparr> f_fill := d \<rparr>)))"

definition get_stroke :: "TextStyle \<Rightarrow> FillStyleInputs" where
  "get_stroke s = f_originalStroke s"

definition set_stroke :: "Env \<Rightarrow> FillStyleInputs \<Rightarrow> TextStyle \<Rightarrow> outcome" where
  "set_stroke E v s =
     (if strict_eq v (f_originalStroke s) then Inr s
      else
        let s1 = s\<lparr> f_originalStroke := v, conversions := Suc (conversions s) \<rparr> in
        case convertFillInputToFillStyle E (Converted (self s) (conversions s)) v
               (defaultStrokeStyle E) of
          Inl e \<Rightarrow> Inl (e, s1)
        | Inr d \<Rightarrow> Inr (update (s1\<lparr> f_stroke := d \<rparr>)))"

text \<open>The getters of the other properties return the private field.\<close>

definition get_fontSize :: "TextStyle \<Rightarrow> number" where
  "get_fontSize s = f_fontSize s"

definition get_dropShadow :: "TextStyle \<Rightarrow> TextDropShadow option" where
  "get_dropShadow s = f_dropShadow s"

definition get_trim :: "TextStyle \<Rightarrow> bool" where
  "get_trim s = f_trim s"

section \<open>The derived key\<close>

definition generateKey :: "Env \<Rightarrow> TextStyle \<Rightarrow> string \<times> TextStyle" where
  "generateKey E s =
     (let k = generateTextStyleKey E (TextStyleProps.truncate s)
      in (k, s\<lparr> f_styleKey := Some k \<rparr>))"

text \<open>
  \<open>this._styleKey || this._generateKey()\<close>: the cached key is returned when it is there
  and is not the empty string.
\<close>

definition get_styleKey :: "Env \<Rightarrow> TextStyle \<Rightarrow> string \<times> TextStyle" where
  "get_styleKey E s =
     (case f_styleKey s of
        Some k \<Rightarrow> (if k \<noteq> [] then (k, s) else generateKey E s)
      | None \<Rightarrow> generateKey E s)"

section \<open>Legacy options\<close>

text \<open>
  \<open>convertV7Tov8Style\<close> rewrites the options object it is given; when the call returns,
  the rewritten object is returned here with the deprecation notices it reported, and
  when it throws, the error with the notices reported until then. The instance \<open>i\<close>
  under construction names the objects that the function allocates.

  The callback of \<open>fills.forEach\<close> reads \<open>oldStyle.fillGradientStops[index]\<close>: reading
  an index of \<open>undefined\<close> throws a \<open>TypeError\<close>, and an index past the end of an array
  gives \<open>undefined\<close>, for which \<open>??\<close> takes \<open>index / fills.length\<close>.
\<close>

fun addStops ::
  "number list option \<Rightarrow> nat \<Rightarrow> nat \<Rightarrow> number list \<Rightarrow> FillGradient \<Rightarrow> error + FillGradient" where
  "addStops stops n index [] g = Inr g"
| "addStops stops n index (c # cs) g =
     (case stops of
        None \<Rightarrow> Inl TypeError
      | Some xs \<Rightarrow>
          let ratio = (if index < length xs then xs ! index
                       else num_divide (Num (of_nat index)) (Num (of_nat n)))
          in addStops stops n (Suc index) cs (addColorStop ratio c g))"

text \<open>The first step: a boolean \<open>dropShadow\<close> that is true becomes a full record.\<close>

definition convertDropShadow :: "TextStyleOptions \<Rightarrow> TextStyleOptions" where
  "convertDropShadow style =
     (if dropShadow style = Some (ShadowBool True) then
        style\<lparr> dropShadow := Some (ShadowObject (PartialDropShadow
          (Some (case dropShadowAlpha style of Some v \<Rightarrow> v | None \<Rightarrow> alpha defaultDropShadow))
          (Some (case dropShadowAngle style of Some v \<Rightarrow> v | None \<Rightarrow> angle defaultDropShadow))
          (Some (case dropShadowBlur style of Some v \<Rightarrow> v | None \<Rightarrow> blur defaultDropShadow))
          (Some (case dropShadowColor style of Some v \<Rightarrow> v | None \<Rightarrow> color defaultDropShadow))
          (Some (case dropShadowDistance style of Some v \<Rightarrow> v
                 | None \<Rightarrow> distance defaultDropShadow)))) \<rparr>
      else style)"

text \<open>The second step: a truthy \<open>strokeThickness\<close> is folded into the stroke.\<close>

definition convertStrokeThickness ::
  "nat \<Rightarrow> TextStyleOptions \<Rightarrow> TextStyleOptions \<times> string list" where
  "convertStrokeThickness i style =
     (case strokeThickness style of
        None \<Rightarrow> (style, [])
      | Some w \<Rightarrow>
          if truthy_number w then
            (style\<lparr> stroke := Some (ObjectV (LegacyStroke i)
                (case stroke style of Some c \<Rightarrow> c | None \<Rightarrow> Undefined) (Some w) None None) \<rparr>,
             [''strokeThickness is now a part of stroke''])
          else (style, []))"

text \<open>
  The third step: an array-shaped fill becomes a gradient. \<open>style.fontSize\<close> is read as a
  number: a missing key is \<open>undefined\<close>, which the product turns into \<open>NaN\<close>.
\<close>

definition fontSizeAsNumber :: "Env \<Rightarrow> FontSizeInput option \<Rightarrow> number" where
  "fontSizeAsNumber E v =
     (case v of
        None \<Rightarrow> NaN
      | Some (SizeNumber n) \<Rightarrow> n
      | Some (SizeString str) \<Rightarrow> StringToNumber E str)"

definition convertGradientFill ::
  "Env \<Rightarrow> nat \<Rightarrow> TextStyleOptions \<Rightarrow>
     error \<times> string list + TextStyleOptions \<times> string list" where
  "convertGradientFill E i style =
     (case fill style of
        Some (ArrayV r colours) \<Rightarrow>
          (let notes = [''gradient fill is now a fill pattern: `new FillGradient(...)`''];
               gradientFill =
                 new_FillGradient (Num 0) (Num 0) (Num 0)
                   (num_times (fontSizeAsNumber E (fontSize style)) (Num (17 / 10)));
               fills = map (Color_toNumber E) colours
           in case addStops (fillGradientStops style) (length fills) 0 fills gradientFill of
                Inl e \<Rightarrow> Inl (e, notes)
              | Inr g \<Rightarrow>
                  Inr (style\<lparr> fill := Some (ObjectV (LegacyFill i) Undefined None (Some g) None) \<rparr>,
                       notes))
      | _ \<Rightarrow> Inr (style, []))"

text \<open>
  The three steps in the order of the source. The notices are those reported up to the
  return, or up to the exception.
\<close>

definition convertV7Tov8Style ::
  "Env \<Rightarrow> nat \<Rightarrow> TextStyleOptions \<Rightarrow>
     error \<times> string list + TextStyleOptions \<times> string list" where
  "convertV7Tov8Style E i style =
     (let (style2, notes2) = convertStrokeThickness i (convertDropShadow style)
      in case convertGradientFill E i style2 of
           Inl (e, notes3) \<Rightarrow> Inl (e, notes2 @ notes3)
         | Inr (style3, notes3) \<Rightarrow> Inr (style3, notes2 @ notes3))"

text \<open>
  The function returns nothing: its effect is on the object of the caller, which it
  rewrites in place. \<open>rewritten\<close> is that object as the call leaves it, whether the call
  returns or throws (an exception of the third step leaves the first two steps done).
  \<open>thick\<close> is the test of the second step.
\<close>

definition thick :: "TextStyleOptions \<Rightarrow> bool" where
  "thick style = (case strokeThickness style of None \<Rightarrow> False | Some w \<Rightarrow> truthy_number w)"

definition rewritten :: "Env \<Rightarrow> nat \<Rightarrow> TextStyleOptions \<Rightarrow> TextStyleOptions" where
  "rewritten E i style =
     (let (style2, notes2) = convertStrokeThickness i (convertDropShadow style)
      in case convertGradientFill E i style2 of
           Inl (e, notes3) \<Rightarrow> style2
         | Inr (style3, notes3) \<Rightarrow> style3)"

section \<open>Construction, reset, clone and destroy\<close>

text \<open>
  \<open>this[key] = value\<close> for a key that has a setter. The other keys of an options object
  (the legacy ones) only create a plain property on the instance, which nothing reads.
\<close>

datatype assignment =
    AlignKey TextStyleAlign
  | BreakWordsKey bool
  | DropShadowKey DropShadowInput
  | FillKey FillStyleInputs
  | FontFamilyKey FontFamily
  | FontSizeKey FontSizeInput
  | FontStyleKey TextStyleFontStyle
  | FontVariantKey TextStyleFontVariant
  | FontWeightKey TextStyleFontWeight
  | LeadingKey number
  | LetterSpacingKey number
  | LineHeightKey number
  | PaddingKey number
  | StrokeKey FillStyleInputs
  | TextBaselineKey TextStyleTextBaseline
  | TrimKey bool
  | WhiteSpaceKey TextStyleWhiteSpace
  | WordWrapKey bool
  | WordWrapWidthKey number

fun assign :: "Env \<Rightarrow> assignment \<Rightarrow> TextStyle \<Rightarrow> outcome" where
  "assign E (AlignKey v) s = Inr (set_align v s)"
| "assign E (BreakWordsKey v) s = Inr (set_breakWords v s)"
| "assign E (DropShadowKey v) s = Inr (set_dropShadow v s)"
| "assign E (FillKey v) s = set_fill E v s"
| "assign E (FontFamilyKey v) s = Inr (set_fontFamily v s)"
| "assign E (FontSizeKey v) s = Inr (set_fontSize v s)"
| "assign E (FontStyleKey v) s = Inr (set_fontStyle v s)"
| "assign E (FontVariantKey v) s = Inr (set_fontVariant v s)"
| "assign E (FontWeightKey v) s = Inr (set_fontWeight v s)"
| "assign E (LeadingKey v) s = Inr (set_leading v s)"
| "assign E (LetterSpacingKey v) s = Inr (set_letterSpacing v s)"
| "assign E (LineHeightKey v) s = Inr (set_lineHeight v s)"
| "assign E (PaddingKey v) s = Inr (set_padding v s)"
| "assign E (StrokeKey v) s = set_stroke E v s"
| "assign E (TextBaselineKey v) s = Inr (set_textBaseline v s)"
| "assign E (TrimKey v) s = Inr (set_trim v s)"
| "assign E (WhiteSpaceKey v) s = Inr (set_whiteSpace v s)"
| "assign E (WordWrapKey v) s = Inr (set_wordWrap v s)"
| "assign E (WordWrapWidthKey v) s = Inr (set_wordWrapWidth v s)"

text \<open>A run of assignments; an exception ends it.\<close>

fun assignAll :: "Env \<Rightarrow> assignment list \<Rightarrow> TextStyle \<Rightarrow> outcome" where
  "assignAll E [] s = Inr s"
| "assignAll E (a # as) s =
     (case assign E a s of Inl e \<Rightarrow> Inl e | Inr s' \<Rightarrow> assignAll E as s')"

text \<open>
  \<open>for (const key in obj)\<close> over an object whose keys stand in the order of
  \<open>defaultTextStyle\<close>: one assignment for each key that is there.
\<close>

fun present :: "'a option \<Rightarrow> 'a list" where
  "present None = []"
| "present (Some v) = [v]"

definition keyAssignments :: "TextStyleOptions \<Rightarrow> assignment list" where
  "keyAssignments st =
     map AlignKey (present (align st)) @ map BreakWordsKey (present (breakWords st)) @
     map DropShadowKey (present (dropShadow st)) @ map FillKey (present (fill st)) @
     map FontFamilyKey (present (fontFamily st)) @ map FontSizeKey (present (fontSize st)) @
     map FontStyleKey (present (fontStyle st)) @
     map FontVariantKey (present (fontVariant st)) @
     map FontWeightKey (present (fontWeight st)) @ map LeadingKey (present (leading st)) @
     map LetterSpacingKey (present (letterSpacing st)) @
     map LineHeightKey (present (lineHeight st)) @ map PaddingKey (present (padding st)) @
     map StrokeKey (present (stroke st)) @
     map TextBaselineKey (present (textBaseline st)) @ map TrimKey (present (trim st)) @
     map WhiteSpaceKey (present (whiteSpace st)) @ map WordWrapKey (present (wordWrap st)) @
     map WordWrapWidthKey (present (wordWrapWidth st))"

text \<open>The spread \<open>{ ...a, ...b }\<close> on one key.\<close>

definition over :: "'a option \<Rightarrow> 'a option \<Rightarrow> 'a option" where
  "over a b = (case b of Some v \<Rightarrow> Some v | None \<Rightarrow> a)"

definition fullStyle :: "TextStyleOptions \<Rightarrow> TextStyleOptions" where
  "fullStyle st =
     (let d = defaultTextStyle in
      \<lparr> align = over (align d) (align st), breakWords = over (breakWords d) (breakWords st),
        dropShadow = over (dropShadow d) (dropShadow st), fill = over (fill d) (fill st),
        fontFamily = over (fontFamily d) (fontFamily st),
        fontSize = over (fontSize d) (fontSize st),
        fontStyle = over (fontStyle d) (fontStyle st),
        fontVariant = over (fontVariant d) (fontVariant st),
        fontWeight = over (fontWeight d) (fontWeight st),
        leading = over (leading d) (leading st),
        letterSpacing = over (letterSpacing d) (letterSpacing st),
        lineHeight = over (lineHeight d) (lineHeight st),
        padding = over (padding d) (padding st), stroke = over (stroke d) (stroke st),
        textBaseline = over (textBaseline d) (textBaseline st),
        trim = over (trim d) (trim st), whiteSpace = over (whiteSpace d) (whiteSpace st),
        wordWrap = over (wordWrap d) (wordWrap st),
        wordWrapWidth = over (wordWrapWidth d) (wordWrapWidth st),
        dropShadowAlpha = over (dropShadowAlpha d) (dropShadowAlpha st),
        dropShadowAngle = over (dropShadowAngle d) (dropShadowAngle st),
        dropShadowBlur = over (dropShadowBlur d) (dropShadowBlur st),
        dropShadowColor = over (dropShadowColor d) (dropShadowColor st),
        dropShadowDistance = over (dropShadowDistance d) (dropShadowDistance st),
        strokeThickness = over (strokeThickness d) (strokeThickness st),
        fillGradientStops = over (fillGradientStops d) (fillGradientStops st) \<rparr>)"

text \<open>
  The instance when the body of the constructor starts: no listener, nothing emitted, the
  paint fields and the key \<open>undefined\<close>. The other fields are \<open>undefined\<close> in the source
  as well; the loop of the constructor assigns every one of them before anything reads
  it, and they hold the documented defaults here.
\<close>

definition blank :: "nat \<Rightarrow> TextStyle" where
  "blank i =
     \<lparr> f_fill = Undefined, f_originalFill = Undefined, f_stroke = Undefined,
       f_originalStroke = Undefined, f_dropShadow = None, f_fontFamily = Family ''Arial'',
       f_fontSize = Num 26, f_fontStyle = StyleNormal, f_fontVariant = VariantNormal,
       f_fontWeight = WeightNormal, f_breakWords = False, f_align = AlignLeft,
       f_leading = Num 0, f_letterSpacing = Num 0, f_lineHeight = Num 0,
       f_textBaseline = BaselineAlphabetic, f_whiteSpace = SpacePre, f_wordWrap = False,
       f_wordWrapWidth = Num 100, f_padding = Num 0, f_trim = False,
       f_styleKey = None, self = i, conversions = 0, listeners = [], emitted = [] \<rparr>"

text \<open>
  \<open>new TextStyle(style)\<close> for the instance \<open>i\<close>. An exception inside the constructor leaves
  no instance behind. The options object of the caller is left as \<open>rewritten E i style\<close>
  gives it: a caller that constructs a second instance \<open>j\<close> from the same object calls
  \<open>new_TextStyle E j (rewritten E i style)\<close>.
\<close>

definition new_TextStyle :: "Env \<Rightarrow> nat \<Rightarrow> TextStyleOptions \<Rightarrow> error + TextStyle" where
  "new_TextStyle E i style =
     (case convertV7Tov8Style E i style of
        Inl (e, notes) \<Rightarrow> Inl e
      | Inr (style', notes) \<Rightarrow>
          (case assignAll E (keyAssignments (fullStyle style')) (blank i) of
             Inl (e, s) \<Rightarrow> Inl e
           | Inr s \<Rightarrow> Inr (update s)))"

definition reset :: "Env \<Rightarrow> TextStyle \<Rightarrow> outcome" where
  "reset E s = assignAll E (keyAssignments defaultTextStyle) s"

text \<open>\<open>clone()\<close> builds the options from the getters and from \<open>_fill\<close> and \<open>_stroke\<close>.\<close>

definition cloneOptions :: "TextStyle \<Rightarrow> TextStyleOptions" where
  "cloneOptions s =
     \<lparr> align = Some (f_align s), breakWords = Some (f_breakWords s),
       dropShadow = Some (case get_dropShadow s of
          None \<Rightarrow> ShadowNull
        | Some d \<Rightarrow> ShadowObject (PartialDropShadow (Some (alpha d)) (Some (angle d))
            (Some (blur d)) (Some (color d)) (Some (distance d)))),
       fill = Some (f_fill s), fontFamily = Some (f_fontFamily s),
       fontSize = Some (SizeNumber (get_fontSize s)), fontStyle = Some (f_fontStyle s),
       fontVariant = Some (f_fontVariant s), fontWeight = Some (f_fontWeight s),
       leading = Some (f_leading s), letterSpacing = Some (f_letterSpacing s),
       lineHeight = Some (f_lineHeight s), padding = Some (f_padding s),
       stroke = Some (f_stroke s), textBaseline = Some (f_textBaseline s),
       trim = None, whiteSpace = Some (f_whiteSpace s), wordWrap = Some (f_wordWrap s),
       wordWrapWidth = Some (f_wordWrapWidth s),
       dropShadowAlpha = None, dropShadowAngle = None, dropShadowBlur = None,
       dropShadowColor = None, dropShadowDistance = None, strokeThickness = None,
       fillGradientStops = None \<rparr>"

definition clone :: "Env \<Rightarrow> nat \<Rightarrow> TextStyle \<Rightarrow> error + TextStyle" where
  "clone E j s = new_TextStyle E j (cloneOptions s)"

text \<open>
  \<open>destroy(options)\<close>: the options are a boolean or an object with the optional keys
  \<open>texture\<close> and \<open>textureSource\<close>. The calls of \<open>texture.destroy\<close> are returned in the order
  they are made, each with the argument it is given.
\<close>

datatype DestroyOptions = DestroyBool bool | DestroyObject "bool option" "bool option"

fun destroyTexture :: "DestroyOptions \<Rightarrow> bool" where
  "destroyTexture (DestroyBool b) = b"
| "destroyTexture (DestroyObject t ts) = (t = Some True)"

fun destroyTextureSource :: "DestroyOptions \<Rightarrow> bool option" where
  "destroyTextureSource (DestroyBool b) = Some b"
| "destroyTextureSource (DestroyObject t ts) = ts"

definition textureCalls :: "DestroyOptions \<Rightarrow> FillStyleInputs \<Rightarrow> (Texture \<times> bool option) list" where
  "textureCalls options v =
     (case texture_of v of Some t \<Rightarrow> [(t, destroyTextureSource options)] | None \<Rightarrow> [])"

definition destroy :: "DestroyOptions \<Rightarrow> TextStyle \<Rightarrow> TextStyle \<times> (Texture \<times> bool option) list" where
  "destroy options s =
     (let s1 = removeAllListeners s;
          calls = (if destroyTexture options then
                     textureCalls options (f_fill s1) @ textureCalls options (f_originalFill s1) @
                     textureCalls options (f_stroke s1) @ textureCalls options (f_originalStroke s1)
                   else []);
          s2 = set_dropShadow ShadowNull (s1\<lparr> f_fill := Null, f_stroke := Null \<rparr>)
      in (s2\<lparr> f_originalStroke := Null, f_originalFill := Null \<rparr>, calls))"

section \<open>Reference collaborators\<close>

text \<open>
  Concrete collaborators, for running the class on concrete inputs. A theorem below that
  is stated for every environment \<open>E\<close> does not depend on these definitions.
\<close>

text \<open>
  Modelled from the spec: \<open>Color.shared.setValue(c).toNumber()\<close> (color/Color.ts is not
  under src/). The spec speaks of numeric colors and color strings; a numeric color is
  its own number, and of the names only the two that the documented defaults and the
  legacy example use are resolved.
\<close>

fun spec_toNumber :: "ColorSource \<Rightarrow> number" where
  "spec_toNumber (ColorNumber n) = n"
| "spec_toNumber (ColorString name) =
     (if name = ''black'' then Num 0 else if name = ''white'' then Num 16777215 else NaN)"

text \<open>
  Modelled from the spec: \<open>convertFillInputToFillStyle\<close>
  (scene/graphics/shared/utils/convertFillInputToFillStyle.ts is not under src/). The spec
  gives it a raw value and a default-paint template, and has it return the canonical paint
  descriptor, or fail on an input it does not recognise; the raw value is a color string,
  a numeric color, a list of colors (evenly spaced gradient stops) or an already-built
  paint object. No paint (the documented default stroke) stays no paint.
\<close>

definition withColor :: "ref \<Rightarrow> FillStyleInputs \<Rightarrow> FillStyleInputs \<Rightarrow> FillStyleInputs" where
  "withColor r c template =
     (case template of
        ObjectV _ _ w g t \<Rightarrow> ObjectV r c w g t
      | _ \<Rightarrow> ObjectV r c None None None)"

definition evenStops :: "number list \<Rightarrow> FillGradient" where
  "evenStops fills =
     (case addStops (Some []) (length fills) 0 fills
             (new_FillGradient (Num 0) (Num 0) (Num 0) (Num 0)) of
        Inr g \<Rightarrow> g
      | Inl _ \<Rightarrow> new_FillGradient (Num 0) (Num 0) (Num 0) (Num 0))"

fun spec_convertFillInputToFillStyle ::
  "ref \<Rightarrow> FillStyleInputs \<Rightarrow> FillStyleInputs \<Rightarrow> error + FillStyleInputs" where
  "spec_convertFillInputToFillStyle r Undefined template = Inr Null"
| "spec_convertFillInputToFillStyle r Null template = Inr Null"
| "spec_convertFillInputToFillStyle r (NumberV NaN) template = Inl UnsupportedPaintInput"
| "spec_convertFillInputToFillStyle r (NumberV Infinity) template = Inl UnsupportedPaintInput"
| "spec_convertFillInputToFillStyle r (NumberV NegInfinity) template = Inl UnsupportedPaintInput"
| "spec_convertFillInputToFillStyle r (NumberV (Num q)) template =
     Inr (withColor r (NumberV (Num q)) template)"
| "spec_convertFillInputToFillStyle r (StringV name) template =
     Inr (withColor r (StringV name) template)"
| "spec_convertFillInputToFillStyle r (ArrayV a colours) template =
     Inr (ObjectV r Undefined None (Some (evenStops (map spec_toNumber colours))) None)"
| "spec_convertFillInputToFillStyle r (ObjectV a c w g t) template =
     Inr (ObjectV r c w g t)"

text \<open>
  Modelled from the spec: \<open>generateTextStyleKey\<close> (scene/text/utils/generateTextStyleKey.ts
  is not under src/). The spec: a string computed deterministically from the full
  property set, a stable concatenation of every property's current value in a fixed
  canonical order; instances with identical property values have identical keys, and a
  changed property changes the key. The property values are the scalars, the drop-shadow
  record and the resolved paint descriptors; the raw paint values, which the spec has
  retained apart for the equality check, do not enter.

  The order here is the order in which the class declares its scalar fields, then the
  fill, the stroke and the drop shadow; each value is followed by a dash. So that a
  changed value changes the text, every value has a text of its own: inside a composite
  value a number is closed by a semicolon or a comma and a string is written after its
  length, a value of a union type is written after a mark of its kind, and the identity
  of a paint object, which is not a value of a property, is not written.
\<close>

fun show_nat :: "nat \<Rightarrow> string" where
  "show_nat n =
     (if n < 10 then [''0123456789'' ! n]
      else show_nat (n div 10) @ [''0123456789'' ! (n mod 10)])"

declare show_nat.simps [simp del]

definition show_int :: "int \<Rightarrow> string" where
  "show_int k = (if k < 0 then CHR ''-'' # show_nat (nat (- k)) else show_nat (nat k))"

text \<open>A number that is not whole is written as a fraction in lowest terms.\<close>

fun Number_toString :: "number \<Rightarrow> string" where
  "Number_toString NaN = ''NaN''"
| "Number_toString Infinity = ''Infinity''"
| "Number_toString NegInfinity = ''-Infinity''"
| "Number_toString (Num q) =
     (let (n, d) = quotient_of q
      in if d = 1 then show_int n else show_int n @ ''/'' @ show_int d)"

definition show_string :: "string \<Rightarrow> string" where
  "show_string s = show_nat (length s) @ '':'' @ s"

definition show_bool :: "bool \<Rightarrow> string" where
  "show_bool b = (if b then ''true'' else ''false'')"

fun show_align :: "TextStyleAlign \<Rightarrow> string" where
  "show_align AlignLeft = ''left''"
| "show_align AlignCenter = ''center''"
| "show_align AlignRight = ''right''"
| "show_align AlignJustify = ''justify''"

fun show_fontStyle :: "TextStyleFontStyle \<Rightarrow> string" where
  "show_fontStyle StyleNormal = ''normal''"
| "show_fontStyle StyleItalic = ''italic''"
| "show_fontStyle StyleOblique = ''oblique''"

fun show_fontVariant :: "TextStyleFontVariant \<Rightarrow> string" where
  "show_fontVariant VariantNormal = ''normal''"
| "show_fontVariant VariantSmallCaps = ''small-caps''"

fun show_fontWeight :: "TextStyleFontWeight \<Rightarrow> string" where
  "show_fontWeight WeightNormal = ''normal''"
| "show_fontWeight WeightBold = ''bold''"
| "show_fontWeight WeightBolder = ''bolder''"
| "show_fontWeight WeightLighter = ''lighter''"
| "show_fontWeight Weight100 = ''100''"
| "show_fontWeight Weight200 = ''200''"
| "show_fontWeight Weight300 = ''300''"
| "show_fontWeight Weight400 = ''400''"
| "show_fontWeight Weight500 = ''500''"
| "show_fontWeight Weight600 = ''600''"
| "show_fontWeight Weight700 = ''700''"
| "show_fontWeight Weight800 = ''800''"
| "show_fontWeight Weight900 = ''900''"

fun show_textBaseline :: "TextStyleTextBaseline \<Rightarrow> string" where
  "show_textBaseline BaselineAlphabetic = ''alphabetic''"
| "show_textBaseline BaselineTop = ''top''"
| "show_textBaseline BaselineHanging = ''hanging''"
| "show_textBaseline BaselineMiddle = ''middle''"
| "show_textBaseline BaselineIdeographic = ''ideographic''"
| "show_textBaseline BaselineBottom = ''bottom''"

fun show_whiteSpace :: "TextStyleWhiteSpace \<Rightarrow> string" where
  "show_whiteSpace SpaceNormal = ''normal''"
| "show_whiteSpace SpacePre = ''pre''"
| "show_whiteSpace SpacePreLine = ''pre-line''"

fun show_fontFamily :: "FontFamily \<Rightarrow> string" where
  "show_fontFamily (Family name) = ''='' @ name"
| "show_fontFamily (Families names) = ''['' @ concat (map show_string names)"

fun show_color :: "ColorSource \<Rightarrow> string" where
  "show_color (ColorNumber n) = ''#'' @ Number_toString n @ '';''"
| "show_color (ColorString name) = ''='' @ show_string name"

definition show_option :: "('a \<Rightarrow> string) \<Rightarrow> 'a option \<Rightarrow> string" where
  "show_option f v = (case v of None \<Rightarrow> ''null'' | Some x \<Rightarrow> f x)"

definition show_gradient :: "FillGradient \<Rightarrow> string" where
  "show_gradient g =
     concat (map (\<lambda>n. Number_toString n @ '','')
       ([x0 g, y0 g, x1 g, y1 g] @
        concat (map (\<lambda>(ratio, colour). [ratio, colour]) (gradientStops g))))"

fun show_paint :: "FillStyleInputs \<Rightarrow> string" where
  "show_paint Undefined = ''undefined''"
| "show_paint Null = ''null''"
| "show_paint (NumberV n) = ''#'' @ Number_toString n"
| "show_paint (StringV name) = ''='' @ name"
| "show_paint (ArrayV r colours) = ''['' @ concat (map show_color colours)"
| "show_paint (ObjectV r c w g t) =
     ''{'' @ show_option Number_toString w @ '';'' @ show_option show_gradient g @ '';'' @
       show_option show_nat t @ '';'' @ show_paint c"

definition show_dropShadow :: "TextDropShadow \<Rightarrow> string" where
  "show_dropShadow d =
     Number_toString (alpha d) @ '';'' @ Number_toString (angle d) @ '';'' @
     Number_toString (blur d) @ '';'' @ show_color (color d) @ Number_toString (distance d)"

definition keyParts :: "TextStyleProps \<Rightarrow> string list" where
  "keyParts p =
     [show_fontFamily (f_fontFamily p), Number_toString (f_fontSize p),
      show_fontStyle (f_fontStyle p), show_fontVariant (f_fontVariant p),
      show_fontWeight (f_fontWeight p), show_bool (f_breakWords p), show_align (f_align p),
      Number_toString (f_leading p), Number_toString (f_letterSpacing p),
      Number_toString (f_lineHeight p), show_textBaseline (f_textBaseline p),
      show_whiteSpace (f_whiteSpace p), show_bool (f_wordWrap p),
      Number_toString (f_wordWrapWidth p), Number_toString (f_padding p),
      show_bool (f_trim p), show_paint (f_fill p), show_paint (f_stroke p),
      show_option show_dropShadow (f_dropShadow p)]"

definition spec_generateTextStyleKey :: "TextStyleProps \<Rightarrow> string" where
  "spec_generateTextStyleKey p = concat (map (\<lambda>part. part @ ''-'') (keyParts p))"

text \<open>
  The conversion of a string to a number, for strings of decimal digits; the other
  numeric strings of the language are read as \<open>NaN\<close> here.
\<close>

definition spec_StringToNumber :: "string \<Rightarrow> number" where
  "spec_StringToNumber str =
     (if str \<noteq> [] \<and> list_all isDigit str then Num (of_nat (digitsValue str)) else NaN)"

text \<open>
  The default paints stand for \<open>GraphicsContext.defaultFillStyle\<close> and
  \<open>defaultStrokeStyle\<close>: white, on the texture \<open>0\<close>, the stroke one unit wide.
\<close>

definition specEnv :: Env where
  "specEnv =
     \<lparr> convertFillInputToFillStyle = spec_convertFillInputToFillStyle,
       defaultFillStyle = ObjectV (Supplied 0) (NumberV (Num 16777215)) None None (Some 0),
       defaultStrokeStyle =
         ObjectV (Supplied 1) (NumberV (Num 16777215)) (Some (Num 1)) None (Some 0),
       generateTextStyleKey = spec_generateTextStyleKey,
       Color_toNumber = spec_toNumber,
       StringToNumber = spec_StringToNumber \<rparr>"

text \<open>The options object \<open>{}\<close>.\<close>

definition noOptions :: TextStyleOptions where
  "noOptions =
     \<lparr> align = None, breakWords = None, dropShadow = None, fill = None,
       fontFamily = None, fontSize = None, fontStyle = None, fontVariant = None,
       fontWeight = None, leading = None, letterSpacing = None, lineHeight = None,
       padding = None, stroke = None, textBaseline = None, trim = None, whiteSpace = None,
       wordWrap = None, wordWrapWidth = None, dropShadowAlpha = None, dropShadowAngle = None,
       dropShadowBlur = None, dropShadowColor = None, dropShadowDistance = None,
       strokeThickness = None, fillGradientStops = None \<rparr>"

text \<open>
  The instance that an operation leaves behind, whether it returned or threw; the
  notifications that were emitted between two states of an instance; and the instance
  \<open>new TextStyle()\<close> under the reference collaborators.
\<close>

definition after :: "outcome \<Rightarrow> TextStyle" where
  "after r = (case r of Inl (e, s) \<Rightarrow> s | Inr s \<Rightarrow> s)"

definition notifications :: "TextStyle \<Rightarrow> TextStyle \<Rightarrow> Emission list" where
  "notifications s s' = drop (length (emitted s)) (emitted s')"

definition defaultInstance :: "nat \<Rightarrow> TextStyle" where
  "defaultInstance i =
     (case new_TextStyle specEnv i noOptions of Inr s \<Rightarrow> s | Inl e \<Rightarrow> blank i)"

text \<open>The two legacy inputs that the spec names, and the default-free options they extend.\<close>

definition legacyShadowOptions :: TextStyleOptions where
  "legacyShadowOptions =
     noOptions\<lparr> dropShadow := Some (ShadowBool True), dropShadowBlur := Some (Num 4) \<rparr>"


definition legacyGradientOptions :: "ref \<Rightarrow> TextStyleOptions" where
  "legacyGradientOptions r =
     noOptions\<lparr> fill := Some (ArrayV r [ColorNumber (Num 0), ColorNumber (Num 16777215)]) \<rparr>"

text \<open>What a call of the \<open>fill\<close> setter produced: the descriptor now held, or the error.\<close>

definition fillResult :: "outcome \<Rightarrow> error + FillStyleInputs" where
  "fillResult r = (case r of Inl (e, s) \<Rightarrow> Inl e | Inr s \<Rightarrow> Inr (f_fill s))"

text \<open>
  The guard of the \<open>fill\<close> and \<open>stroke\<close> setters, for an assignment; and the number of
  notifications of a \<open>reset()\<close>: one for each of the seventeen other properties, and one
  for the fill and for the stroke when the guard does not skip the default.
\<close>

definition guardSkips :: "assignment \<Rightarrow> TextStyle \<Rightarrow> bool" where
  "guardSkips a s =
     (case a of
        FillKey v \<Rightarrow> strict_eq v (f_originalFill s)
      | StrokeKey v \<Rightarrow> strict_eq v (f_originalStroke s)
      | _ \<Rightarrow> False)"

definition resetCount :: "TextStyle \<Rightarrow> nat" where
  "resetCount s =
     17 + (if strict_eq (StringV ''black'') (f_originalFill s) then 0 else 1)
        + (if strict_eq Null (f_originalStroke s) then 0 else 1)"


definition scalars :: "TextStyle \<Rightarrow> TextStyleProps" where
  "scalars s = (TextStyleProps.truncate s)\<lparr> f_fill := Undefined, f_originalFill := Undefined,
      f_stroke := Undefined, f_originalStroke := Undefined \<rparr>"

fun plain :: "assignment \<Rightarrow> assignment" where
  "plain (FillKey v) = FillKey Undefined"
| "plain (StrokeKey v) = StrokeKey Undefined"
| "plain a = a"









section \<open>Evaluation of the construction\<close>

lemmas setter_defs = set_align_def set_breakWords_def set_dropShadow_def
  set_fontFamily_def set_fontSize_def set_fontStyle_def set_fontVariant_def
  set_fontWeight_def set_leading_def set_letterSpacing_def set_lineHeight_def
  set_padding_def set_trim_def set_textBaseline_def set_whiteSpace_def set_wordWrap_def
  set_wordWrapWidth_def

lemmas legacy_defs = convertV7Tov8Style_def convertDropShadow_def
  convertStrokeThickness_def convertGradientFill_def

lemmas construct_defs = new_TextStyle_def legacy_defs fullStyle_def over_def
  defaultTextStyle_def keyAssignments_def blank_def update_def setter_defs set_fill_def
  set_stroke_def

lemmas specEnv_defs = specEnv_def withColor_def noOptions_def

lemmas parse_defs = parseInt_def stripNonDigits_def isWhiteSpace_def isDigit_def
  digitsValue_def digitValue_def toDouble_def

lemmas show_defs = spec_generateTextStyleKey_def keyParts_def show_bool_def show_option_def
  TextStyleProps.truncate_def

lemmas reset_defs = reset_def keyAssignments_def defaultTextStyle_def setter_defs update_def
  set_fill_def set_stroke_def

lemma new_default: "new_TextStyle specEnv i noOptions = Inr (defaultInstance i)"
  by (simp add: defaultInstance_def construct_defs specEnv_defs)

lemma defaultInstance_eq:
  "defaultInstance i =
     \<lparr> f_fill = ObjectV (Converted i 0) (StringV ''black'') None None (Some 0),
       f_originalFill = StringV ''black'', f_stroke = Null,
       f_originalStroke = Null, f_dropShadow = None, f_fontFamily = Family ''Arial'',
       f_fontSize = Num 26, f_fontStyle = StyleNormal, f_fontVariant = VariantNormal,
       f_fontWeight = WeightNormal, f_breakWords = False, f_align = AlignLeft,
       f_leading = Num 0, f_letterSpacing = Num 0, f_lineHeight = Num 0,
       f_textBaseline = BaselineAlphabetic, f_whiteSpace = SpacePre, f_wordWrap = False,
       f_wordWrapWidth = Num 100, f_padding = Num 0, f_trim = False,
       f_styleKey = None, self = i, conversions = 2, listeners = [],
       emitted =
         [Emission ''update'' i [], Emission ''update'' i [], Emission ''update'' i [],
          Emission ''update'' i [], Emission ''update'' i [], Emission ''update'' i [],
          Emission ''update'' i [], Emission ''update'' i [], Emission ''update'' i [],
          Emission ''update'' i [], Emission ''update'' i [], Emission ''update'' i [],
          Emission ''update'' i [], Emission ''update'' i [], Emission ''update'' i [],
          Emission ''update'' i [], Emission ''update'' i [], Emission ''update'' i [],
          Emission ''update'' i [], Emission ''update'' i []] \<rparr>"
  by (simp add: defaultInstance_def construct_defs specEnv_defs)

section \<open>The font size setter\<close>

lemma digit_not_space: "isDigit c \<Longrightarrow> \<not> isWhiteSpace c"
  by (auto simp: isDigit_def isWhiteSpace_def)

lemma digit_not_sign: "isDigit c \<Longrightarrow> c \<noteq> CHR ''+'' \<and> c \<noteq> CHR ''-''"
  by (auto simp: isDigit_def)

lemma space_not_digit: "isWhiteSpace c \<Longrightarrow> \<not> isDigit c"
  by (auto simp: isDigit_def isWhiteSpace_def)

lemma set_fontSize_parseInt:
  "get_fontSize (set_fontSize (SizeString str) s) = parseInt str"
  by (simp add: get_fontSize_def set_fontSize_def update_def)

text \<open>
  The integer read is rounded as the language rounds it: \<open>2 ^ 53 + 1\<close> is not a double,
  and the even neighbour below it is stored.
\<close>

lemma parseInt_rounds: "parseInt ''9007199254740993'' = Num 9007199254740992"
  by (simp add: parse_defs bitLength.simps Let_def)

lemma parseInt_digits_suffix:
  assumes "list_all isWhiteSpace ws" and "sg = [] \<or> sg = ''+''" and "ds \<noteq> []"
    and "list_all isDigit ds" and "\<not> list_ex isDigit rest"
  shows "parseInt (ws @ sg @ ds @ rest) = toDouble (digitsValue ds)"
    and "stripNonDigits (ws @ sg @ ds @ rest) = toDouble (digitsValue ds)"
proof -
  obtain d ds' where ds: "ds = d # ds'" using assms(3) by (cases ds) auto
  have d: "isDigit d" using assms(4) ds by simp
  have take_rest: "takeWhile isDigit rest = []"
    using assms(5) by (cases rest) (auto simp: list_ex_iff)
  have take: "takeWhile isDigit (ds @ rest) = ds"
    using assms(4) take_rest by (simp add: takeWhile_append2 list_all_iff)
  have start: "\<not> isWhiteSpace (hd (sg @ ds @ rest))" "sg @ ds @ rest \<noteq> []"
    using assms(2) ds digit_not_space [OF d] by (auto simp: isWhiteSpace_def)
  have "dropWhile isWhiteSpace (ws @ sg @ ds @ rest) =
      dropWhile isWhiteSpace (sg @ ds @ rest)"
    using assms(1) by (simp add: dropWhile_append2 list_all_iff)
  also have "\<dots> = sg @ ds @ rest"
    using start by (cases "sg @ ds @ rest") simp_all
  finally have drop: "dropWhile isWhiteSpace (ws @ sg @ ds @ rest) = sg @ ds @ rest" .
  show "parseInt (ws @ sg @ ds @ rest) = toDouble (digitsValue ds)"
  proof (cases "sg = []")
    case True
    have "hd (ds @ rest) = d" "ds @ rest \<noteq> []" using ds by simp_all
    then have "hd (ds @ rest) \<noteq> CHR ''+''" "hd (ds @ rest) \<noteq> CHR ''-''" "ds @ rest \<noteq> []"
      using digit_not_sign [OF d] by simp_all
    then show ?thesis
      unfolding parseInt_def drop Let_def using True take assms(3) by simp
  next
    case False
    with assms(2) have p: "sg = ''+''" by simp
    show ?thesis
      unfolding parseInt_def drop Let_def using p take assms(3) by simp
  qed
  have "filter isDigit ws = []"
    using assms(1) space_not_digit by (auto simp: list_all_iff filter_empty_conv)
  moreover have "filter isDigit sg = []"
    using assms(2) by (auto simp: isDigit_def)
  moreover have "filter isDigit ds = ds" "filter isDigit rest = []"
    using assms(4,5) by (simp_all add: list_all_iff list_ex_iff)
  ultimately show "stripNonDigits (ws @ sg @ ds @ rest) = toDouble (digitsValue ds)"
    by (simp add: stripNonDigits_def)
qed

text \<open>
  C6, as amended. An assignment of a string to the \<open>fontSize\<close> setter clears the cached
  key and emits exactly one \<open>update\<close> with the instance as payload. Whenever the string
  is white space, then at most a sg sign, then a run of decimal digits, at least one,
  then characters none of which is a digit (such as 26px), the value stored and returned
  by the getter is the number written by the digits, which is the number left by
  stripping the characters that are not digits.
\<close>

theorem set_fontSize_string:
  "f_styleKey (set_fontSize (SizeString str) s) = None \<and>
   notifications s (set_fontSize (SizeString str) s) =
     [Emission ''update'' (self s) (listeners s)] \<and>
   (str = ws @ sg @ ds @ rest \<and> list_all isWhiteSpace ws \<and> (sg = [] \<or> sg = ''+'') \<and>
    ds \<noteq> [] \<and> list_all isDigit ds \<and> \<not> list_ex isDigit rest \<longrightarrow>
      get_fontSize (set_fontSize (SizeString str) s) = toDouble (digitsValue ds) \<and>
      stripNonDigits str = toDouble (digitsValue ds))"
  by (auto simp: get_fontSize_def set_fontSize_def update_def notifications_def
      parseInt_digits_suffix)

theorem set_fontSize_string_witness:
  "''26px'' = [] @ [] @ ''26'' @ ''px'' \<and> list_all isWhiteSpace [] \<and> ''26'' \<noteq> [] \<and>
   list_all isDigit ''26'' \<and> \<not> list_ex isDigit ''px'' \<and>
   toDouble (digitsValue ''26'') = Num 26 \<and>
   get_fontSize (set_fontSize (SizeString ''26px'') (defaultInstance 0)) = Num 26 \<and>
   stripNonDigits ''26px'' = Num 26 \<and>
   f_styleKey (set_fontSize (SizeString ''26px'') (defaultInstance 0)) = None \<and>
   notifications (defaultInstance 0) (set_fontSize (SizeString ''26px'') (defaultInstance 0)) =
     [Emission ''update'' 0 []]"
proof -
  note T = set_fontSize_string [of "''26px''" "defaultInstance 0" "[]" "[]" "''26''" "''px''"]
  have h: "''26px'' = [] @ [] @ ''26'' @ ''px'' \<and> list_all isWhiteSpace [] \<and>
      ([] = [] \<or> [] = ''+'') \<and> ''26'' \<noteq> [] \<and> list_all isDigit ''26'' \<and>
      \<not> list_ex isDigit ''px''"
    by (simp add: isDigit_def)
  have p: "toDouble (digitsValue ''26'') = Num 26"
    by (simp add: parse_defs bitLength.simps)
  from T h have "get_fontSize (set_fontSize (SizeString ''26px'') (defaultInstance 0)) =
      toDouble (digitsValue ''26'') \<and> stripNonDigits ''26px'' = toDouble (digitsValue ''26'')"
    by blast
  then have a: "get_fontSize (set_fontSize (SizeString ''26px'') (defaultInstance 0)) = Num 26"
      "stripNonDigits ''26px'' = Num 26"
    by (simp_all only: p)
  have b: "f_styleKey (set_fontSize (SizeString ''26px'') (defaultInstance 0)) = None"
    using T by blast
  have "notifications (defaultInstance 0)
      (set_fontSize (SizeString ''26px'') (defaultInstance 0)) =
      [Emission ''update'' (self (defaultInstance 0)) (listeners (defaultInstance 0))]"
    using T by blast
  then have c: "notifications (defaultInstance 0)
      (set_fontSize (SizeString ''26px'') (defaultInstance 0)) = [Emission ''update'' 0 []]"
    by (simp add: defaultInstance_eq)
  from h p a b c show ?thesis by blast
qed

text \<open>
  C6 as stated fails: the setter reads a sign. For the string -5px it stores the number
  minus five, as it does when the number minus five itself is assigned, and stripping
  the characters that are not digits leaves five.
\<close>

theorem fontSize_strips_non_digits_counterexample:
  "get_fontSize (set_fontSize (SizeString ''-5px'') (defaultInstance 0)) = Num (- 5) \<and>
   get_fontSize (set_fontSize (SizeNumber (Num (- 5))) (defaultInstance 0)) = Num (- 5) \<and>
   stripNonDigits ''-5px'' = Num 5 \<and>
   get_fontSize (set_fontSize (SizeString ''-5px'') (defaultInstance 0)) \<noteq>
     stripNonDigits ''-5px''"
  by (simp add: get_fontSize_def set_fontSize_def update_def parse_defs bitLength.simps)

section \<open>Reading the derived key\<close>

lemma truncate_styleKey:
  "TextStyleProps.truncate (s\<lparr> f_styleKey := k \<rparr>) = TextStyleProps.truncate s"
  by (simp add: TextStyleProps.truncate_def)

lemma get_styleKey_twice:
  "get_styleKey E (snd (get_styleKey E s)) = get_styleKey E s \<and>
   f_styleKey (snd (get_styleKey E s)) = Some (fst (get_styleKey E s))"
  by (auto simp: get_styleKey_def generateKey_def Let_def truncate_styleKey
      split: option.splits)

lemma get_styleKey_computes:
  "f_styleKey s = None \<Longrightarrow>
   get_styleKey E s =
     (generateTextStyleKey E (TextStyleProps.truncate s),
      s\<lparr> f_styleKey := Some (generateTextStyleKey E (TextStyleProps.truncate s)) \<rparr>)"
  by (simp add: get_styleKey_def generateKey_def Let_def)

lemma get_styleKey_cached:
  "f_styleKey t = Some k \<Longrightarrow> k \<noteq> [] \<Longrightarrow> get_styleKey E t = (k, t)"
  by (simp add: get_styleKey_def)

text \<open>
  An assignment either leaves the trace and the cached key as they were (the guard of a
  paint setter returned at once, or the converter threw), or adds one notification and
  clears the cached key. So a run of assignments that has notified leaves no cached key.
\<close>

lemma assign_clears:
  "(emitted (after (assign E a s)) = emitted s \<and>
    f_styleKey (after (assign E a s)) = f_styleKey s) \<or>
   (length (emitted s) < length (emitted (after (assign E a s))) \<and>
    f_styleKey (after (assign E a s)) = None)"
  by (cases a)
    (auto simp: after_def setter_defs update_def set_fill_def set_stroke_def Let_def
      split: sum.splits)

lemma after_assignAll_Cons:
  "after (assignAll E (a # as) s) =
     (if isl (assign E a s) then after (assign E a s)
      else after (assignAll E as (after (assign E a s))))"
  by (auto simp: after_def split: sum.splits)

lemma assign_thrown_keeps:
  "isl (assign E a s) \<Longrightarrow>
   emitted (after (assign E a s)) = emitted s \<and>
   f_styleKey (after (assign E a s)) = f_styleKey s"
  by (cases a)
    (auto simp: after_def setter_defs update_def set_fill_def set_stroke_def Let_def
      split: sum.splits if_splits)

lemma assignAll_clears:
  "(emitted (after (assignAll E as s)) = emitted s \<and>
    f_styleKey (after (assignAll E as s)) = f_styleKey s) \<or>
   (length (emitted s) < length (emitted (after (assignAll E as s))) \<and>
    f_styleKey (after (assignAll E as s)) = None)"
proof (induction as arbitrary: s)
  case Nil
  then show ?case by (simp add: after_def)
next
  case (Cons a as)
  show ?case
  proof (cases "isl (assign E a s)")
    case True
    with assign_thrown_keeps [OF True] show ?thesis
      unfolding after_assignAll_Cons by simp
  next
    case False
    let ?u = "after (assign E a s)"
    from False have run: "after (assignAll E (a # as) s) = after (assignAll E as ?u)"
      unfolding after_assignAll_Cons by simp
    from assign_clears [of E a s] Cons.IH [of ?u] show ?thesis
      unfolding run by auto
  qed
qed

lemma notified_clears:
  "notifications s (after (assignAll E as s)) \<noteq> [] \<or> f_styleKey s = None \<Longrightarrow>
   f_styleKey (after (assignAll E as s)) = None"
  using assignAll_clears [of E as s] by (auto simp: notifications_def)

lemma spec_key_ne: "spec_generateTextStyleKey p \<noteq> []"
  by (simp add: spec_generateTextStyleKey_def keyParts_def)

text \<open>
  C2. For every instance \<open>s0\<close>, every environment and every sequence of property
  assignments, take the instance as the sequence leaves it (finished, or stopped by an
  exception of the converter). Reading \<open>styleKey\<close> twice with nothing in between returns
  the same string both times, and the second read leaves the instance as the first left
  it, with that string in the cache. When the sequence has notified a change (or the
  instance had no cached key), the first read computes: the string is what
  \<open>generateTextStyleKey\<close> returns for the properties as they now are. A read of an
  instance that holds a key in its cache, not the empty string, returns that key as it
  is, whatever the properties are, and leaves the instance as it was.
\<close>

theorem styleKey_memoized:
  "(let s = after (assignAll E as s0);
        first = get_styleKey E s;
        second = get_styleKey E (snd first)
    in second = first \<and>
       f_styleKey (snd first) = Some (fst first) \<and>
       (notifications s0 s \<noteq> [] \<or> f_styleKey s0 = None \<longrightarrow>
          first = (generateTextStyleKey E (TextStyleProps.truncate s),
                   s\<lparr> f_styleKey := Some (generateTextStyleKey E (TextStyleProps.truncate s)) \<rparr>)) \<and>
       (f_styleKey t = Some k \<and> k \<noteq> [] \<longrightarrow> get_styleKey E t = (k, t)))"
  using get_styleKey_twice [of E "after (assignAll E as s0)"]
    get_styleKey_computes [OF notified_clears, of s0 E as E]
    get_styleKey_cached [of t k E]
  by (simp add: Let_def)

theorem styleKey_memoized_witness:
  "notifications (defaultInstance 0)
     (after (assignAll specEnv [TrimKey True] (defaultInstance 0))) \<noteq> [] \<and>
   get_styleKey specEnv (after (assignAll specEnv [TrimKey True] (defaultInstance 0))) =
     (spec_generateTextStyleKey (TextStyleProps.truncate
        (after (assignAll specEnv [TrimKey True] (defaultInstance 0)))),
      (after (assignAll specEnv [TrimKey True] (defaultInstance 0)))
        \<lparr> f_styleKey := Some (spec_generateTextStyleKey (TextStyleProps.truncate
            (after (assignAll specEnv [TrimKey True] (defaultInstance 0))))) \<rparr>) \<and>
   spec_generateTextStyleKey (TextStyleProps.truncate
     (after (assignAll specEnv [TrimKey True] (defaultInstance 0)))) \<noteq> [] \<and>
   get_styleKey specEnv
     (snd (get_styleKey specEnv (after (assignAll specEnv [TrimKey True] (defaultInstance 0))))) =
     get_styleKey specEnv (after (assignAll specEnv [TrimKey True] (defaultInstance 0)))"
proof -
  let ?s = "after (assignAll specEnv [TrimKey True] (defaultInstance 0))"
  let ?k = "spec_generateTextStyleKey (TextStyleProps.truncate ?s)"
  note T = styleKey_memoized [of specEnv "[TrimKey True]" "defaultInstance 0"
      "snd (get_styleKey specEnv ?s)" ?k]
  have g: "generateTextStyleKey specEnv = spec_generateTextStyleKey"
    by (simp add: specEnv_def)
  have n: "notifications (defaultInstance 0) ?s \<noteq> []"
    by (simp add: notifications_def after_def set_trim_def update_def)
  from T n have first: "get_styleKey specEnv ?s = (?k, ?s\<lparr> f_styleKey := Some ?k \<rparr>)"
    unfolding Let_def g by blast
  have ne: "?k \<noteq> []" by (rule spec_key_ne)
  from first have c: "f_styleKey (snd (get_styleKey specEnv ?s)) = Some ?k" by simp
  from T c ne have "get_styleKey specEnv (snd (get_styleKey specEnv ?s)) =
      (?k, snd (get_styleKey specEnv ?s))"
    unfolding Let_def by blast
  with first have second: "get_styleKey specEnv (snd (get_styleKey specEnv ?s)) =
      get_styleKey specEnv ?s"
    by simp
  from n first ne second show ?thesis by blast
qed

section \<open>The fill and stroke setters\<close>

lemma strict_eq_refl: "strict_eq v v = (v \<noteq> NumberV NaN)"
  by (cases v) auto

text \<open>
  C7, as amended. For every instance, reassigning to the \<open>fill\<close> setter the raw value
  that the instance retains returns the instance unchanged in every field (no conversion,
  no cleared key, no notification) exactly when that value is not \<open>NaN\<close>; and so for
  \<open>stroke\<close>. A retained \<open>NaN\<close>, the one value that is not \<open>===\<close> to itself, passes the
  guard: the converter is run again.
\<close>

theorem same_raw_value_skips:
  "(set_fill E (f_originalFill s) s = Inr s) = (f_originalFill s \<noteq> NumberV NaN) \<and>
   (set_stroke E (f_originalStroke s) s = Inr s) = (f_originalStroke s \<noteq> NumberV NaN) \<and>
   conversions (after (set_fill E (f_originalFill s) s)) =
     (if f_originalFill s = NumberV NaN then Suc (conversions s) else conversions s) \<and>
   conversions (after (set_stroke E (f_originalStroke s) s)) =
     (if f_originalStroke s = NumberV NaN then Suc (conversions s) else conversions s)"
proof -
  have fill: "conversions (after (set_fill E (f_originalFill s) s)) =
     (if f_originalFill s = NumberV NaN then Suc (conversions s) else conversions s)"
    by (simp add: set_fill_def strict_eq_refl after_def update_def Let_def split: sum.splits)
  have stroke: "conversions (after (set_stroke E (f_originalStroke s) s)) =
     (if f_originalStroke s = NumberV NaN then Suc (conversions s) else conversions s)"
    by (simp add: set_stroke_def strict_eq_refl after_def update_def Let_def split: sum.splits)
  have a: "(set_fill E (f_originalFill s) s = Inr s) = (f_originalFill s \<noteq> NumberV NaN)"
  proof (cases "f_originalFill s = NumberV NaN")
    case True
    have "set_fill E (f_originalFill s) s = Inr s \<Longrightarrow> False"
    proof -
      assume "set_fill E (f_originalFill s) s = Inr s"
      then have "conversions (after (set_fill E (f_originalFill s) s)) = conversions s"
        by (simp add: after_def)
      with fill True show False by simp
    qed
    with True show ?thesis by auto
  next
    case False
    then show ?thesis by (simp add: set_fill_def strict_eq_refl)
  qed
  have b: "(set_stroke E (f_originalStroke s) s = Inr s) = (f_originalStroke s \<noteq> NumberV NaN)"
  proof (cases "f_originalStroke s = NumberV NaN")
    case True
    have "set_stroke E (f_originalStroke s) s = Inr s \<Longrightarrow> False"
    proof -
      assume "set_stroke E (f_originalStroke s) s = Inr s"
      then have "conversions (after (set_stroke E (f_originalStroke s) s)) = conversions s"
        by (simp add: after_def)
      with stroke True show False by simp
    qed
    with True show ?thesis by auto
  next
    case False
    then show ?thesis by (simp add: set_stroke_def strict_eq_refl)
  qed
  from a b fill stroke show ?thesis by blast
qed

text \<open>
  C7 as stated fails. The raw value is stored before the converter runs, so after \<open>NaN\<close>
  is assigned to \<open>fill\<close> on \<open>new TextStyle()\<close> the instance retains \<open>NaN\<close>, which the getter
  returns; assigning that very value again is not skipped: the converter is run once
  more.
\<close>

theorem retained_NaN_is_reconverted_counterexample:
  "(let s = after (set_fill specEnv (NumberV NaN) (defaultInstance 0)) in
    get_fill s = NumberV NaN \<and>
    set_fill specEnv (get_fill s) s \<noteq> Inr s \<and>
    conversions (after (set_fill specEnv (get_fill s) s)) = Suc (conversions s))"
  by (simp add: set_fill_def get_fill_def after_def defaultInstance_eq specEnv_defs Let_def)

lemma strict_eq_zero: "strict_eq (NumberV (Num 0)) x \<Longrightarrow> x = NumberV (Num 0)"
  by (cases x) auto

text \<open>
  C10. For every instance and every environment, after the number 0 is assigned to the
  \<open>fill\<close> setter the getter returns 0. Whenever the guard lets the assignment through,
  what the setter produces is what the converter returns for the string black and the
  default fill style; so, from an instance whose raw fill is neither 0 nor black, the
  assignments of 0 and of black produce the same descriptor, or the same error.
\<close>

theorem fill_zero_is_black:
  "get_fill (after (set_fill E (NumberV (Num 0)) s)) = NumberV (Num 0) \<and>
   (\<not> strict_eq (NumberV (Num 0)) (f_originalFill s) \<longrightarrow>
      fillResult (set_fill E (NumberV (Num 0)) s) =
        convertFillInputToFillStyle E (Converted (self s) (conversions s)) (StringV ''black'')
          (defaultFillStyle E)) \<and>
   (\<not> strict_eq (NumberV (Num 0)) (f_originalFill s) \<and>
    \<not> strict_eq (StringV ''black'') (f_originalFill s) \<longrightarrow>
      fillResult (set_fill E (NumberV (Num 0)) s) =
        fillResult (set_fill E (StringV ''black'') s))"
  by (auto simp: set_fill_def get_fill_def after_def fillResult_def update_def Let_def
      dest: strict_eq_zero split: sum.splits)

lemma redInstance_fields:
  "self (after (set_fill specEnv (StringV ''red'') (defaultInstance 0))) = 0"
  "conversions (after (set_fill specEnv (StringV ''red'') (defaultInstance 0))) = 3"
  "f_originalFill (after (set_fill specEnv (StringV ''red'') (defaultInstance 0))) =
     StringV ''red''"
  by (simp_all add: set_fill_def after_def defaultInstance_eq specEnv_defs update_def)

theorem fill_zero_is_black_witness:
  "\<not> strict_eq (NumberV (Num 0))
      (f_originalFill (after (set_fill specEnv (StringV ''red'') (defaultInstance 0)))) \<and>
   \<not> strict_eq (StringV ''black'')
      (f_originalFill (after (set_fill specEnv (StringV ''red'') (defaultInstance 0)))) \<and>
   get_fill (after (set_fill specEnv (NumberV (Num 0))
      (after (set_fill specEnv (StringV ''red'') (defaultInstance 0))))) = NumberV (Num 0) \<and>
   fillResult (set_fill specEnv (NumberV (Num 0))
      (after (set_fill specEnv (StringV ''red'') (defaultInstance 0)))) =
     Inr (ObjectV (Converted 0 3) (StringV ''black'') None None (Some 0)) \<and>
   fillResult (set_fill specEnv (StringV ''black'')
      (after (set_fill specEnv (StringV ''red'') (defaultInstance 0)))) =
     Inr (ObjectV (Converted 0 3) (StringV ''black'') None None (Some 0))"
proof -
  let ?red = "after (set_fill specEnv (StringV ''red'') (defaultInstance 0))"
  note T = fill_zero_is_black [of specEnv ?red]
  have a: "\<not> strict_eq (NumberV (Num 0)) (f_originalFill ?red)"
    by (simp add: redInstance_fields)
  have b: "\<not> strict_eq (StringV ''black'') (f_originalFill ?red)"
    by (simp add: redInstance_fields)
  have c: "get_fill (after (set_fill specEnv (NumberV (Num 0)) ?red)) = NumberV (Num 0)"
    using T by blast
  have r: "convertFillInputToFillStyle specEnv (Converted (self ?red) (conversions ?red))
      (StringV ''black'') (defaultFillStyle specEnv) =
      Inr (ObjectV (Converted 0 3) (StringV ''black'') None None (Some 0))"
    unfolding redInstance_fields by (simp add: specEnv_defs)
  from T a have "fillResult (set_fill specEnv (NumberV (Num 0)) ?red) =
      convertFillInputToFillStyle specEnv (Converted (self ?red) (conversions ?red))
        (StringV ''black'') (defaultFillStyle specEnv)"
    by blast
  with r have d: "fillResult (set_fill specEnv (NumberV (Num 0)) ?red) =
      Inr (ObjectV (Converted 0 3) (StringV ''black'') None None (Some 0))"
    by (simp only:)
  from T a b have "fillResult (set_fill specEnv (NumberV (Num 0)) ?red) =
      fillResult (set_fill specEnv (StringV ''black'') ?red)"
    by blast
  with d have e: "fillResult (set_fill specEnv (StringV ''black'') ?red) =
      Inr (ObjectV (Converted 0 3) (StringV ''black'') None None (Some 0))"
    by (simp only:)
  from a b c d e show ?thesis by blast
qed

section \<open>Notifications\<close>

lemma assign_notifications:
  "notifications s (after (assign E a s)) =
     (if guardSkips a s \<or> isl (assign E a s) then []
      else [Emission ''update'' (self s) (listeners s)])"
  by (cases a)
    (auto simp: guardSkips_def after_def setter_defs update_def notifications_def
      set_fill_def set_stroke_def Let_def split: sum.splits)

lemma reset_notifications:
  "reset E s = Inr s' \<Longrightarrow>
   notifications s s' = replicate (resetCount s) (Emission ''update'' (self s) (listeners s))"
  by (auto simp: reset_defs notifications_def resetCount_def Let_def numeral_eq_Suc
      split: sum.splits if_splits)

text \<open>
  C3, as amended. For every instance and every environment, a call of a property setter
  emits exactly one \<open>update\<close> with the instance as payload, except that a call of the
  \<open>fill\<close> or \<open>stroke\<close> setter emits none when the value is the retained raw value (the
  guard returns at once) or when the converter throws. A \<open>reset()\<close> that returns emits
  one \<open>update\<close> for each of the seventeen other properties, and one for the fill and one
  for the stroke unless the retained raw value already is the default.
\<close>

theorem update_notifications:
  "notifications s (after (assign E a s)) =
     (if guardSkips a s \<or> isl (assign E a s) then []
      else [Emission ''update'' (self s) (listeners s)]) \<and>
   (\<forall>s'. reset E s = Inr s' \<longrightarrow>
      notifications s s' =
        replicate (resetCount s) (Emission ''update'' (self s) (listeners s)))"
  using assign_notifications reset_notifications by blast

lemma reset_default:
  "reset specEnv (defaultInstance 0) = Inr (after (reset specEnv (defaultInstance 0)))"
  by (simp add: reset_defs defaultInstance_eq specEnv_defs after_def)

theorem update_notifications_witness:
  "reset specEnv (defaultInstance 0) = Inr (after (reset specEnv (defaultInstance 0))) \<and>
   resetCount (defaultInstance 0) = 17 \<and>
   notifications (defaultInstance 0) (after (reset specEnv (defaultInstance 0))) =
     replicate 17 (Emission ''update'' 0 []) \<and>
   notifications (defaultInstance 0)
     (after (assign specEnv (TrimKey True) (defaultInstance 0))) = [Emission ''update'' 0 []]"
proof -
  note T = update_notifications [of "defaultInstance 0" specEnv "TrimKey True"]
  have c: "resetCount (defaultInstance 0) = 17"
    by (simp add: resetCount_def defaultInstance_eq)
  have d: "self (defaultInstance 0) = 0" "listeners (defaultInstance 0) = []"
    by (simp_all add: defaultInstance_eq)
  from T reset_default
  have "notifications (defaultInstance 0) (after (reset specEnv (defaultInstance 0))) =
     replicate (resetCount (defaultInstance 0))
       (Emission ''update'' (self (defaultInstance 0)) (listeners (defaultInstance 0)))"
    by blast
  then have e: "notifications (defaultInstance 0) (after (reset specEnv (defaultInstance 0))) =
     replicate 17 (Emission ''update'' 0 [])"
    by (simp only: c d)
  have g: "\<not> (guardSkips (TrimKey True) (defaultInstance 0) \<or>
      isl (assign specEnv (TrimKey True) (defaultInstance 0)))"
    by (simp add: guardSkips_def)
  from T g
  have f: "notifications (defaultInstance 0)
      (after (assign specEnv (TrimKey True) (defaultInstance 0))) = [Emission ''update'' 0 []]"
    by (simp only: d if_False)
  from reset_default c e f show ?thesis by blast
qed

text \<open>
  C3 as stated fails. On \<open>new TextStyle()\<close>, assigning the string black to \<open>fill\<close> emits
  nothing, and \<open>reset()\<close>, which assigns the nineteen default properties, emits seventeen
  notifications.
\<close>

theorem one_update_per_setter_call_counterexample:
  "notifications (defaultInstance 0)
     (after (assign specEnv (FillKey (StringV ''black'')) (defaultInstance 0))) = [] \<and>
   length (keyAssignments defaultTextStyle) = 19 \<and>
   length (notifications (defaultInstance 0) (after (reset specEnv (defaultInstance 0)))) = 17"
  by (simp add: reset_defs defaultInstance_eq specEnv_defs after_def notifications_def)

section \<open>Legacy inputs\<close>

text \<open>
  C4. The code does not do what the claim says: for the options
  \<open>{fill: [0x000000, 0xFFFFFF]}\<close>, in every environment, the constructor throws a
  \<open>TypeError\<close>, since the callback reads an index of the missing \<open>fillGradientStops\<close>.
\<close>

theorem legacy_gradient_throws:
  "convertV7Tov8Style E i (legacyGradientOptions r) =
     Inl (TypeError, [''gradient fill is now a fill pattern: `new FillGradient(...)`'']) \<and>
   new_TextStyle E i (legacyGradientOptions r) = Inl TypeError"
  by (simp add: legacyGradientOptions_def new_TextStyle_def legacy_defs noOptions_def Let_def)

text \<open>
  With a stop list that is there and empty, the fallback that the claim describes is
  reached: the two stops stand at the ratios 0 and one half.
\<close>

lemma legacy_gradient_with_stops:
  "convertV7Tov8Style E i ((legacyGradientOptions r)\<lparr> fillGradientStops := Some [] \<rparr>) =
     Inr ((legacyGradientOptions r)\<lparr> fillGradientStops := Some [],
        fill := Some (ObjectV (LegacyFill i) Undefined None
          (Some \<lparr> x0 = Num 0, y0 = Num 0, x1 = Num 0, y1 = NaN,
             gradientStops = [(Num 0, Color_toNumber E (ColorNumber (Num 0))),
                (Num (1 / 2), Color_toNumber E (ColorNumber (Num 16777215)))] \<rparr>) None) \<rparr>,
       [''gradient fill is now a fill pattern: `new FillGradient(...)`''])"
  by (simp add: legacyGradientOptions_def legacy_defs noOptions_def Let_def
      fontSizeAsNumber_def new_FillGradient_def addColorStop_def)

text \<open>
  C5. In every environment, when the constructor returns an instance for the options
  \<open>{dropShadow: true, dropShadowBlur: 4}\<close>, the drop shadow of the instance is the
  documented default record with the blur replaced by 4.
\<close>

theorem legacy_dropShadow:
  "new_TextStyle E i legacyShadowOptions = Inr s \<Longrightarrow>
   get_dropShadow s = Some (defaultDropShadow\<lparr> blur := Num 4 \<rparr>)"
  by (auto simp: legacyShadowOptions_def construct_defs noOptions_def get_dropShadow_def
      Let_def defaultDropShadow_def split: sum.splits if_splits)

theorem legacy_dropShadow_witness:
  "new_TextStyle specEnv 0 legacyShadowOptions =
     Inr (projr (new_TextStyle specEnv 0 legacyShadowOptions)) \<and>
   get_dropShadow (projr (new_TextStyle specEnv 0 legacyShadowOptions)) =
     Some \<lparr> alpha = Num 1, angle = num_divide Math_PI (Num 6), blur = Num 4,
            color = ColorString ''black'', distance = Num 5 \<rparr>"
proof -
  have a: "new_TextStyle specEnv 0 legacyShadowOptions =
      Inr (projr (new_TextStyle specEnv 0 legacyShadowOptions))"
    by (simp add: legacyShadowOptions_def construct_defs specEnv_defs)
  from legacy_dropShadow [OF a] a show ?thesis
    by (simp add: defaultDropShadow_def)
qed

section \<open>Destroy\<close>

text \<open>
  C9. For every instance and every pair of destroy options, after a first \<open>destroy\<close> the
  fill, the stroke, the drop shadow and the two raw values are null and the listener
  list is empty; a second \<open>destroy\<close> destroys no texture and returns the instance as the
  first call left it. The one thing it adds is a record in the trace: the \<open>update\<close> of
  the drop-shadow setter, delivered to no listener.
\<close>

theorem destroy_twice:
  "(let first = fst (destroy options s) in
    f_fill first = Null \<and> f_stroke first = Null \<and> f_dropShadow first = None \<and>
    f_originalFill first = Null \<and> f_originalStroke first = Null \<and> listeners first = [] \<and>
    destroy options' first =
      (first\<lparr> emitted := emitted first @ [Emission ''update'' (self s) []] \<rparr>, []))"
  by (simp add: destroy_def Let_def removeAllListeners_def set_dropShadow_def update_def
      textureCalls_def)

section \<open>One value, one text\<close>



















































section \<open>Keys of instances built from the same options\<close>










lemma legacy_base:
  "convertV7Tov8Style E i st = Inr (st', n) \<Longrightarrow>
   st' = (convertDropShadow st)\<lparr> stroke := stroke st', fill := fill st' \<rparr>"
  by (auto simp: convertV7Tov8Style_def convertStrokeThickness_def convertGradientFill_def Let_def
      split: option.splits FillStyleInputs.splits sum.splits if_splits)



lemma present_over: "present (over (Some d) x) = [case x of None \<Rightarrow> d | Some v \<Rightarrow> v]"
  by (cases x) (simp_all add: over_def)


lemma scalars_assign:
  assumes "assign E a s = Inr t" and "assign E' a' s' = Inr t'"
    and "plain a = plain a'" and "scalars s = scalars s'"
  shows "scalars t = scalars t'"
proof -
  have step: "scalars t = scalars (after (assign E (plain a) (s\<lparr> f_originalFill := Undefined, f_originalStroke := Undefined \<rparr>)))"
    if "assign E a s = Inr t" for E a s t
    using that
    by (cases a)
      (auto simp: scalars_def TextStyleProps.truncate_def setter_defs update_def set_fill_def
        set_stroke_def Let_def after_def split: if_splits sum.splits)
  have norm: "scalars (after (assign E (plain a) (s\<lparr> f_originalFill := Undefined, f_originalStroke := Undefined \<rparr>))) =
       scalars (after (assign E' (plain a) (s'\<lparr> f_originalFill := Undefined, f_originalStroke := Undefined \<rparr>)))"
    using assms(4)
    by (cases a)
      (auto simp: scalars_def TextStyleProps.truncate_def setter_defs update_def set_fill_def
        set_stroke_def Let_def after_def split: if_splits sum.splits)
  show ?thesis
    using step [OF assms(1)] step [OF assms(2)] norm assms(3) by simp
qed


lemma scalars_assignAll:
  "assignAll E as s = Inr t \<Longrightarrow> assignAll E' as' s' = Inr t' \<Longrightarrow>
   map plain as = map plain as' \<Longrightarrow> scalars s = scalars s' \<Longrightarrow> scalars t = scalars t'"
proof (induction as arbitrary: as' s s')
  case Nil
  then show ?case by simp
next
  case (Cons a as)
  then obtain a' bs where as': "as' = a' # bs" by (cases as') auto
  from Cons.prems(1) obtain u where u: "assign E a s = Inr u" "assignAll E as u = Inr t"
    by (auto split: sum.splits)
  from Cons.prems(2) as' obtain u' where u': "assign E' a' s' = Inr u'" "assignAll E' bs u' = Inr t'"
    by (auto split: sum.splits)
  from Cons.prems(3) as' have p: "plain a = plain a'" "map plain as = map plain bs" by simp_all
  have "scalars u = scalars u'"
    using scalars_assign [OF u(1) u'(1) p(1) Cons.prems(4)] .
  then show ?case using Cons.IH [OF u(2) u'(2) p(2)] by simp
qed








lemma keyAssignments_fullStyle:
  "keyAssignments (fullStyle st) =
     [AlignKey (case align st of None \<Rightarrow> AlignLeft | Some v \<Rightarrow> v),
      BreakWordsKey (case breakWords st of None \<Rightarrow> False | Some v \<Rightarrow> v),
      DropShadowKey (case dropShadow st of None \<Rightarrow> ShadowNull | Some v \<Rightarrow> v)] @
     FillKey (case fill st of None \<Rightarrow> StringV ''black'' | Some v \<Rightarrow> v) #
     [FontFamilyKey (case fontFamily st of None \<Rightarrow> Family ''Arial'' | Some v \<Rightarrow> v),
      FontSizeKey (case fontSize st of None \<Rightarrow> SizeNumber (Num 26) | Some v \<Rightarrow> v),
      FontStyleKey (case fontStyle st of None \<Rightarrow> StyleNormal | Some v \<Rightarrow> v),
      FontVariantKey (case fontVariant st of None \<Rightarrow> VariantNormal | Some v \<Rightarrow> v),
      FontWeightKey (case fontWeight st of None \<Rightarrow> WeightNormal | Some v \<Rightarrow> v),
      LeadingKey (case leading st of None \<Rightarrow> Num 0 | Some v \<Rightarrow> v),
      LetterSpacingKey (case letterSpacing st of None \<Rightarrow> Num 0 | Some v \<Rightarrow> v),
      LineHeightKey (case lineHeight st of None \<Rightarrow> Num 0 | Some v \<Rightarrow> v),
      PaddingKey (case padding st of None \<Rightarrow> Num 0 | Some v \<Rightarrow> v)] @
     StrokeKey (case stroke st of None \<Rightarrow> Null | Some v \<Rightarrow> v) #
     [TextBaselineKey (case textBaseline st of None \<Rightarrow> BaselineAlphabetic | Some v \<Rightarrow> v),
      TrimKey (case trim st of None \<Rightarrow> False | Some v \<Rightarrow> v),
      WhiteSpaceKey (case whiteSpace st of None \<Rightarrow> SpacePre | Some v \<Rightarrow> v),
      WordWrapKey (case wordWrap st of None \<Rightarrow> False | Some v \<Rightarrow> v),
      WordWrapWidthKey (case wordWrapWidth st of None \<Rightarrow> Num 100 | Some v \<Rightarrow> v)]"
  by (simp add: keyAssignments_def fullStyle_def defaultTextStyle_def present_over Let_def)




lemma truncate_update: "TextStyleProps.truncate (update s) = TextStyleProps.truncate s"
  by (simp add: update_def TextStyleProps.truncate_def)













lemma thick_cong: "strokeThickness a = strokeThickness b \<Longrightarrow> thick a = thick b"
  by (simp add: thick_def)


lemma gradient_step_keeps:
  "convertGradientFill E i b = Inr (a, n) \<Longrightarrow>
   stroke a = stroke b \<and> strokeThickness a = strokeThickness b"
  by (auto simp: convertGradientFill_def Let_def
      split: option.splits FillStyleInputs.splits sum.splits)

lemma rewritten_stroke:
  assumes "thick st"
  shows "stroke (rewritten E i st) =
      Some (ObjectV (LegacyStroke i) (case stroke st of Some c \<Rightarrow> c | None \<Rightarrow> Undefined)
        (strokeThickness st) None None) \<and>
    strokeThickness (rewritten E i st) = strokeThickness st"
proof -
  from assms obtain w where w: "strokeThickness st = Some w" "truthy_number w"
    by (auto simp: thick_def split: option.splits)
  let ?b = "convertDropShadow st"
  have b: "stroke ?b = stroke st" "strokeThickness ?b = Some w"
    using w by (simp_all add: convertDropShadow_def)
  define s2 where "s2 = ?b\<lparr> stroke := Some (ObjectV (LegacyStroke i)
      (case stroke st of Some c \<Rightarrow> c | None \<Rightarrow> Undefined) (Some w) None None) \<rparr>"
  have st2: "convertStrokeThickness i ?b = (s2, [''strokeThickness is now a part of stroke''])"
    using b w by (simp add: convertStrokeThickness_def s2_def)
  have r: "rewritten E i st =
      (case convertGradientFill E i s2 of Inl (e, n) \<Rightarrow> s2 | Inr (s3, n) \<Rightarrow> s3)"
    by (simp add: rewritten_def st2)
  have s2: "stroke s2 = Some (ObjectV (LegacyStroke i)
      (case stroke st of Some c \<Rightarrow> c | None \<Rightarrow> Undefined) (Some w) None None)"
      "strokeThickness s2 = Some w"
    using b by (simp_all add: s2_def)
  show ?thesis
  proof (cases "convertGradientFill E i s2")
    case (Inl e)
    with r s2 w show ?thesis by (cases e) simp
  next
    case (Inr p)
    obtain a n where p: "p = (a, n)" by (cases p)
    from gradient_step_keeps [OF Inr [unfolded p]] r Inr p s2 w show ?thesis by simp
  qed
qed

text \<open>
  An object with a truthy \<open>strokeThickness\<close> is not left as a second construction can
  take it: the key \<open>strokeThickness\<close> stays, and the second construction wraps the stroke,
  which the first has wrapped, once more.
\<close>

lemma rewrapped:
  assumes "thick st"
  shows "stroke (rewritten E j (rewritten E i st)) =
     Some (ObjectV (LegacyStroke j)
       (ObjectV (LegacyStroke i) (case stroke st of Some c \<Rightarrow> c | None \<Rightarrow> Undefined)
          (strokeThickness st) None None)
       (strokeThickness st) None None)"
proof -
  note one = rewritten_stroke [OF assms, of E i]
  from one assms have "thick (rewritten E i st)" using thick_cong by blast
  from rewritten_stroke [OF this, of E j] one show ?thesis by simp
qed








section \<open>Clone\<close>

lemma plain_idem: "plain (plain a) = plain a"
  by (cases a) simp_all

lemma construct_scalars:
  assumes "assignAll E (keyAssignments (fullStyle st)) (blank i) = Inr t"
  shows "scalars t =
    scalars (after (assignAll E (map plain (keyAssignments (fullStyle st))) (blank i)))"
proof -
  have run: "assignAll E (map plain (keyAssignments (fullStyle st))) (blank i) =
      Inr (after (assignAll E (map plain (keyAssignments (fullStyle st))) (blank i)))"
    by (simp add: keyAssignments_fullStyle blank_def after_def set_fill_def set_stroke_def
        setter_defs update_def)
  have m: "map plain (keyAssignments (fullStyle st)) =
      map plain (map plain (keyAssignments (fullStyle st)))"
    by (simp add: plain_idem)
  from scalars_assignAll [OF assms run m] show ?thesis by simp
qed

text \<open>
  In every environment, a clone that is returned holds the values of the original in
  every field but the paints, which the converter resolves anew, and \<open>trim\<close>, which is
  false whatever the original holds.
\<close>

lemma clone_keeps_the_rest:
  assumes "clone E j s = Inr c"
  shows "scalars c = (scalars s)\<lparr> f_trim := False \<rparr>"
proof -
  from assms obtain st n t where st: "convertV7Tov8Style E j (cloneOptions s) = Inr (st, n)"
      and t: "assignAll E (keyAssignments (fullStyle st)) (blank j) = Inr t" and c: "c = update t"
    by (auto simp: clone_def new_TextStyle_def split: sum.splits prod.splits)
  have base: "convertDropShadow (cloneOptions s) = cloneOptions s"
    by (simp add: convertDropShadow_def cloneOptions_def split: option.splits)
  from legacy_base [OF st] base
  have eq: "st = (cloneOptions s)\<lparr> stroke := stroke st, fill := fill st \<rparr>" by simp
  have "scalars (after (assignAll E (map plain (keyAssignments (fullStyle
            ((cloneOptions s)\<lparr> stroke := S, fill := F \<rparr>)))) (blank j))) =
        (scalars s)\<lparr> f_trim := False \<rparr>" for S F
    by (simp add: keyAssignments_fullStyle blank_def after_def set_fill_def set_stroke_def
        setter_defs update_def cloneOptions_def get_dropShadow_def get_fontSize_def
        scalars_def TextStyleProps.truncate_def split: option.splits)
  with eq
  have "scalars (after (assignAll E (map plain (keyAssignments (fullStyle st))) (blank j))) =
        (scalars s)\<lparr> f_trim := False \<rparr>" by metis
  with construct_scalars [OF t] c show ?thesis
    by (simp add: scalars_def truncate_update)
qed

text \<open>
  C8. The code does not do what the claim says: \<open>clone()\<close> does not pass \<open>trim\<close>. On
  \<open>new TextStyle()\<close> with \<open>trim\<close> set to true, the clone has \<open>trim\<close> false, and its key
  under the reference key generator differs from the key of the original.
\<close>

theorem clone_loses_trim:
  "get_trim (set_trim True (defaultInstance 0)) = True \<and>
   (case clone specEnv 1 (set_trim True (defaultInstance 0)) of
      Inl e \<Rightarrow> False
    | Inr c \<Rightarrow> get_trim c = False \<and>
        fst (get_styleKey specEnv c) \<noteq>
          fst (get_styleKey specEnv (set_trim True (defaultInstance 0))))"
  by (simp add: clone_def cloneOptions_def construct_defs specEnv_defs defaultInstance_eq
      get_trim_def get_dropShadow_def get_fontSize_def get_styleKey_def generateKey_def
      Let_def show_defs)

end
